theory Spec2Isabelle
  imports Complex_Main "HOL-Library.Word"
begin

unbundle bit_operations_syntax

section \<open>Ground-station link: \<^verbatim>\<open>Code/basic_model/clib/mavlink.c\<close>\<close>

subsection \<open>Data\<close>

text \<open>
  A C \<^verbatim>\<open>float\<close> that the code only copies from one place to another is carried as
  its 32-bit pattern; no arithmetic is done on it in the functions modelled here.
\<close>

type_synonym float32 = "32 word"

text \<open>The anonymous enums of the parameter and the mission protocol state machines.\<close>

datatype ParamState =
    PARAM_STATE_INACTIVE
  | PARAM_STATE_SINGLETON_TRANSMIT_START
  | PARAM_STATE_SINGLETON_TRANSMIT_WAITING
  | PARAM_STATE_STREAM_TRANSMIT_START
  | PARAM_STATE_STREAM_TRANSMIT_PARAM
  | PARAM_STATE_STREAM_TRANSMIT_WAITING
  | PARAM_STATE_STREAM_TRANSMIT_DELAY

datatype MissionState =
    MISSION_STATE_INACTIVE
  | MISSION_STATE_REQUEST_LIST_START
  | MISSION_STATE_REQUEST_LIST_COUNTDOWN
  | MISSION_STATE_REQUEST_LIST_RESPONSE
  | MISSION_STATE_REQUEST_LIST_WAITING

text \<open>Enumerations of the MAVLink library that the code names.\<close>

datatype MAV_STATE =
    MAV_STATE_UNINIT
  | MAV_STATE_BOOT
  | MAV_STATE_CALIBRATING
  | MAV_STATE_STANDBY
  | MAV_STATE_ACTIVE

datatype MAV_MISSION_RESULT =
    MAV_MISSION_ACCEPTED
  | MAV_MISSION_ERROR
  | MAV_MISSION_NO_SPACE
  | MAV_MISSION_INVALID_SEQUENCE

text \<open>The mode flags of the MAVLink common dialect (bits of \<^verbatim>\<open>mavlink_system.mode\<close>).\<close>

definition MAV_MODE_FLAG_SAFETY_ARMED :: "8 word" where
  "MAV_MODE_FLAG_SAFETY_ARMED = 128"

definition MAV_MODE_FLAG_MANUAL_INPUT_ENABLED :: "8 word" where
  "MAV_MODE_FLAG_MANUAL_INPUT_ENABLED = 64"

definition MAV_MODE_FLAG_HIL_ENABLED :: "8 word" where
  "MAV_MODE_FLAG_HIL_ENABLED = 32"

definition MAV_MODE_FLAG_GUIDED_ENABLED :: "8 word" where
  "MAV_MODE_FLAG_GUIDED_ENABLED = 8"

definition MAV_MODE_FLAG_AUTO_ENABLED :: "8 word" where
  "MAV_MODE_FLAG_AUTO_ENABLED = 4"

text \<open>Message identifiers handed to and returned by the message scheduler.\<close>

datatype MsgId =
    MAVLINK_MSG_ID_HEARTBEAT
  | MAVLINK_MSG_ID_SYS_STATUS
  | MAVLINK_MSG_ID_GPS_RAW_INT
  | MAVLINK_MSG_ID_STATUS_AND_ERRORS
  | MAVLINK_MSG_ID_WSO100
  | MAVLINK_MSG_ID_PARAM_VALUE
  | MAVLINK_MSG_ID_MISSION_COUNT
  | MAVLINK_MSG_ID_MISSION_ITEM
  | MAVLINK_MSG_ID_OTHER nat

text \<open>
  A waypoint as the mission manager stores it. The initializer in \<^verbatim>\<open>MavLinkReceive\<close>
  fills it from a decoded mission item in the order coordinates, frame, command,
  parameters, autocontinue.
\<close>

record Mission =
  coordinates :: "float32 list"
  refFrame :: "8 word"
  action :: "16 word"
  parameters :: "float32 list"
  autocontinue :: "8 word"

text \<open>The decoded \<^verbatim>\<open>mavlink_mission_item_t\<close>.\<close>

record mission_item =
  item_seq :: "16 word"
  item_frame :: "8 word"
  item_command :: "16 word"
  item_current :: "8 word"
  item_autocontinue :: "8 word"
  item_param1 :: float32
  item_param2 :: float32
  item_param3 :: float32
  item_param4 :: float32
  item_x :: float32
  item_y :: float32
  item_z :: float32

text \<open>
  A decoded inbound frame: the sender's system and component id and the payload the
  dispatcher switches on. Decoding itself (\<^verbatim>\<open>mavlink_parse_char\<close>) belongs to the
  MAVLink library; a frame that does not decode never reaches the switch.
\<close>

datatype in_payload =
    MISSION_COUNT_in "16 word"
  | MISSION_ITEM_in mission_item
  | MISSION_REQUEST_LIST_in
  | MISSION_REQUEST_in "16 word"
  | MISSION_CLEAR_ALL_in
  | MISSION_SET_CURRENT_in "16 word"
  | MISSION_ACK_in
  | PARAM_REQUEST_LIST_in
  | PARAM_REQUEST_READ_in "16 word"
  | PARAM_SET_in string "32 word"
  | OTHER_in

record mavlink_message =
  msg_sysid :: "8 word"
  msg_compid :: "8 word"
  msg_payload :: in_payload

text \<open>
  What is appended to the UART1 transmit queue, one constructor per packed message
  (the sender ids are the constants of \<^verbatim>\<open>mavlink_system\<close>). Messages whose fields come
  from sensor modules outside these sources carry no payload here.
\<close>

datatype out_msg =
    HEARTBEAT_out "8 word" MAV_STATE
  | SYS_STATUS_out
  | GPS_RAW_INT_out
  | STATUS_AND_ERRORS_out "16 word" "16 word"
  | WSO100_out
  | PARAM_VALUE_out string "32 word" "16 word" "16 word"
  | MISSION_COUNT_out "8 word" "8 word" "8 word"
  | MISSION_ITEM_out "8 word" "8 word" "8 word" Mission bool
  | MISSION_CURRENT_out "16 word"
  | MISSION_ACK_out "8 word" "8 word" MAV_MISSION_RESULT
  | MISSION_REQUEST_out "8 word" "8 word" "16 word"

subsection \<open>Mission store (MissionManager)\<close>

text \<open>
  The mission manager is generated code that is not part of these sources; only its
  calls and the field \<^verbatim>\<open>mList.maxSize\<close> appear. Its operations are modelled below from
  the interface the specification gives.
\<close>

record MissionList =
  missions :: "Mission list"
  maxSize :: nat
  currentIndex :: int

text \<open>Modelled from the spec: \<^verbatim>\<open>count()\<close>, the store's current size, delivered through the
  \<^verbatim>\<open>uint8_t\<close> out-parameter of \<^verbatim>\<open>GetMissionCount\<close>.\<close>

definition GetMissionCount :: "MissionList \<Rightarrow> 8 word" where
  "GetMissionCount ml = of_nat (length (missions ml))"

text \<open>Modelled from the spec: \<^verbatim>\<open>get(seq) -> (item, found)\<close>; \<^verbatim>\<open>GetMission\<close> is absent.\<close>

definition GetMission :: "8 word \<Rightarrow> MissionList \<Rightarrow> Mission option" where
  "GetMission i ml =
     (if unat i < length (missions ml) then Some (missions ml ! unat i) else None)"

text \<open>Modelled from the spec: \<^verbatim>\<open>append(item) -> indexOrFull\<close>; \<^verbatim>\<open>AppendMission\<close> is absent.
  The index is that of the stored item, counted from 0 as the sequence numbers are; a
  full store reports -1, the value the caller tests for.\<close>

definition AppendMission :: "Mission \<Rightarrow> MissionList \<Rightarrow> MissionList \<times> int" where
  "AppendMission m ml =
     (if length (missions ml) < maxSize ml
      then (ml\<lparr>missions := missions ml @ [m]\<rparr>, int (length (missions ml)))
      else (ml, - 1))"

text \<open>Modelled from the spec: \<^verbatim>\<open>clear()\<close>; \<^verbatim>\<open>ClearMissionList\<close> is absent.\<close>

definition ClearMissionList :: "MissionList \<Rightarrow> MissionList" where
  "ClearMissionList ml = ml\<lparr>missions := []\<rparr>"

text \<open>Modelled from the spec: \<^verbatim>\<open>setCurrent(seq)\<close>; \<^verbatim>\<open>SetCurrentMission\<close> is absent.\<close>

definition SetCurrentMission :: "8 word \<Rightarrow> MissionList \<Rightarrow> MissionList" where
  "SetCurrentMission i ml = ml\<lparr>currentIndex := uint i\<rparr>"

text \<open>Modelled from the spec: \<^verbatim>\<open>getCurrent()\<close>; \<^verbatim>\<open>GetCurrentMission\<close> is absent. The caller's
  comment says it yields -1 when there are no missions.\<close>

definition GetCurrentMission :: "MissionList \<Rightarrow> int" where
  "GetCurrentMission ml = (if missions ml = [] then - 1 else currentIndex ml)"

subsection \<open>Message scheduler (MavlinkMessageScheduler)\<close>

text \<open>
  The scheduler is not part of these sources either. A registration is the triple
  (id, period, next-due tick). The source hands the scheduler no byte counts
  (\<^verbatim>\<open>AddMessage(id, n)\<close>, \<^verbatim>\<open>AddTransientMessage(id)\<close>), so no byte budget is modelled:
  every due message is returned in the tick it falls due.
\<close>

record Scheduler =
  registrations :: "(MsgId \<times> nat \<times> nat) list"
  transients :: "MsgId list"
  now :: nat

fun upsert_registration ::
  "MsgId \<Rightarrow> nat \<Rightarrow> nat \<Rightarrow> (MsgId \<times> nat \<times> nat) list \<Rightarrow> (MsgId \<times> nat \<times> nat) list" where
  "upsert_registration i p d [] = [(i, p, d)]"
| "upsert_registration i p d (r # rs) =
     (if fst r = i then (i, p, d) # rs else r # upsert_registration i p d rs)"

text \<open>Modelled from the spec: \<^verbatim>\<open>register(id, period)\<close> adds or overwrites a periodic entry,
  first due one period after registration; \<^verbatim>\<open>AddMessage\<close> is absent.\<close>

definition AddMessage :: "MsgId \<Rightarrow> nat \<Rightarrow> Scheduler \<Rightarrow> Scheduler" where
  "AddMessage i p sch =
     sch\<lparr>registrations := upsert_registration i p (now sch + p) (registrations sch)\<rparr>"

text \<open>Modelled from the spec: \<^verbatim>\<open>requestTransient(id)\<close> enqueues a one-shot send;
  \<^verbatim>\<open>AddTransientMessage\<close> is absent.\<close>

definition AddTransientMessage :: "MsgId \<Rightarrow> Scheduler \<Rightarrow> Scheduler" where
  "AddTransientMessage i sch = sch\<lparr>transients := transients sch @ [i]\<rparr>"

definition due_ids :: "nat \<Rightarrow> (MsgId \<times> nat \<times> nat) list \<Rightarrow> MsgId list" where
  "due_ids t rs = map fst (filter (\<lambda>r. snd (snd r) = t) rs)"

definition advance_due :: "nat \<Rightarrow> (MsgId \<times> nat \<times> nat) list \<Rightarrow> (MsgId \<times> nat \<times> nat) list" where
  "advance_due t rs =
     map (\<lambda>r. if snd (snd r) = t then (fst r, fst (snd r), snd (snd r) + fst (snd r)) else r) rs"

text \<open>Modelled from the spec: \<^verbatim>\<open>tick()\<close> advances time by one unit and returns, in order,
  all periodic ids whose due tick equals the current tick (advancing their next-due by
  their period), followed by the queued transients in FIFO order; \<^verbatim>\<open>IncrementTimestep\<close>
  is absent.\<close>

definition IncrementTimestep :: "Scheduler \<Rightarrow> MsgId list \<times> Scheduler" where
  "IncrementTimestep sch =
     (let t = now sch + 1
      in (due_ids t (registrations sch) @ transients sch,
          sch\<lparr>registrations := advance_due t (registrations sch), transients := [], now := t\<rparr>))"

subsection \<open>Module state\<close>

text \<open>
  The module-level and function-static variables of \<^verbatim>\<open>mavlink.c\<close>, the two fields of the
  external \<^verbatim>\<open>systemStatus\<close> it reads and writes, the mission store, the scheduler, and
  the UART1 transmit queue as the list of messages enqueued so far.
\<close>

record mavlink_state =
  mavlink_system_state :: MAV_STATE
  mavlink_system_mode :: "8 word"
  groundStationSystemId :: "8 word"
  groundStationComponentId :: "8 word"
  currentParameter :: "8 word"
  parameterProtocolState :: ParamState
  currentMission :: "8 word"
  missionProtocolState :: MissionState
  delayCountdown :: "8 word"
  missionProtocolRequestCounter :: "8 word"
  mavlinkNewMissionListSize :: "16 word"
  systemStatus_status :: "16 word"
  systemStatus_reset :: "16 word"
  mList :: MissionList
  scheduler :: Scheduler
  uart1 :: "out_msg list"

definition parameterCount :: "16 word" where
  "parameterCount = 4"

definition uart1EnqueueData :: "out_msg \<Rightarrow> mavlink_state \<Rightarrow> mavlink_state" where
  "uart1EnqueueData m s = s\<lparr>uart1 := uart1 s @ [m]\<rparr>"

definition add_transient :: "MsgId \<Rightarrow> mavlink_state \<Rightarrow> mavlink_state" where
  "add_transient i s = s\<lparr>scheduler := AddTransientMessage i (scheduler s)\<rparr>"

subsection \<open>Senders\<close>

definition MavLinkSendHeartbeat :: "mavlink_state \<Rightarrow> mavlink_state" where
  "MavLinkSendHeartbeat s =
     uart1EnqueueData (HEARTBEAT_out (mavlink_system_mode s) (mavlink_system_state s)) s"

definition MavLinkSendStatus :: "mavlink_state \<Rightarrow> mavlink_state" where
  "MavLinkSendStatus s = uart1EnqueueData SYS_STATUS_out s"

definition MavLinkSendRawGps :: "mavlink_state \<Rightarrow> mavlink_state" where
  "MavLinkSendRawGps s = uart1EnqueueData GPS_RAW_INT_out s"

definition MavLinkSendWindAirData :: "mavlink_state \<Rightarrow> mavlink_state" where
  "MavLinkSendWindAirData s = uart1EnqueueData WSO100_out s"

definition MavLinkMissionProtocolSend :: "mavlink_state \<Rightarrow> mavlink_state" where
  "MavLinkMissionProtocolSend s =
     uart1EnqueueData
       (MISSION_COUNT_out (groundStationSystemId s) (groundStationComponentId s)
          (GetMissionCount (mList s))) s"

definition MavLinkMissionItemSend :: "mavlink_state \<Rightarrow> mavlink_state" where
  "MavLinkMissionItemSend s =
     (case GetMission (currentMission s) (mList s) of
        Some m \<Rightarrow>
          uart1EnqueueData
            (MISSION_ITEM_out (groundStationSystemId s) (groundStationComponentId s)
               (currentMission s) m
               (currentMission s = (word_of_int (GetCurrentMission (mList s)) :: 8 word))) s
      | None \<Rightarrow> s)"

definition MavLinkSendCurrentMission :: "mavlink_state \<Rightarrow> mavlink_state" where
  "MavLinkSendCurrentMission s =
     (if GetCurrentMission (mList s) \<noteq> - 1
      then uart1EnqueueData (MISSION_CURRENT_out (word_of_int (GetCurrentMission (mList s)))) s
      else s)"

text \<open>
  \<^verbatim>\<open>_transmitParameter0\<close> .. \<^verbatim>\<open>_transmitParameter3\<close>: the value is bit \<open>n\<close> of
  \<^verbatim>\<open>systemStatus.status\<close> as a \<^verbatim>\<open>uint32\<close> 0 or 1, sent under the name of the parameter.
\<close>

definition status_bit :: "nat \<Rightarrow> mavlink_state \<Rightarrow> 32 word" where
  "status_bit n s = (if systemStatus_status s AND push_bit n 1 \<noteq> 0 then 1 else 0)"

definition transmitParameter0 :: "mavlink_state \<Rightarrow> mavlink_state" where
  "transmitParameter0 s =
     uart1EnqueueData (PARAM_VALUE_out ''MODE_AUTO'' (status_bit 0 s) parameterCount 0) s"

definition transmitParameter1 :: "mavlink_state \<Rightarrow> mavlink_state" where
  "transmitParameter1 s =
     uart1EnqueueData (PARAM_VALUE_out ''MODE_HIL'' (status_bit 1 s) parameterCount 1) s"

definition transmitParameter2 :: "mavlink_state \<Rightarrow> mavlink_state" where
  "transmitParameter2 s =
     uart1EnqueueData (PARAM_VALUE_out ''MODE_HILSENSE'' (status_bit 2 s) parameterCount 2) s"

definition transmitParameter3 :: "mavlink_state \<Rightarrow> mavlink_state" where
  "transmitParameter3 s =
     uart1EnqueueData (PARAM_VALUE_out ''MODE_RCDISCON'' (status_bit 3 s) parameterCount 3) s"

definition MavLinkSendStatusAndErrors :: "mavlink_state \<Rightarrow> mavlink_state" where
  "MavLinkSendStatusAndErrors s =
     (let s1 = uart1EnqueueData
                 (STATUS_AND_ERRORS_out (systemStatus_status s) (systemStatus_reset s)) s;
          s2 = (if systemStatus_reset s1 AND push_bit 0 1 \<noteq> 0 then
                  s1\<lparr>mavlink_system_state := MAV_STATE_BOOT,
                     mavlink_system_mode :=
                       mavlink_system_mode s1 AND NOT MAV_MODE_FLAG_SAFETY_ARMED\<rparr>
                else if systemStatus_reset s1 AND push_bit 5 1 \<noteq> 0 then
                  s1\<lparr>mavlink_system_state := MAV_STATE_CALIBRATING,
                     mavlink_system_mode :=
                       mavlink_system_mode s1 OR MAV_MODE_FLAG_SAFETY_ARMED\<rparr>
                else if systemStatus_reset s1 > 0 then
                  s1\<lparr>mavlink_system_state := MAV_STATE_STANDBY,
                     mavlink_system_mode :=
                       mavlink_system_mode s1 OR MAV_MODE_FLAG_SAFETY_ARMED\<rparr>
                else
                  s1\<lparr>mavlink_system_state := MAV_STATE_ACTIVE,
                     mavlink_system_mode :=
                       mavlink_system_mode s1 OR MAV_MODE_FLAG_SAFETY_ARMED\<rparr>);
          s3 = (if systemStatus_status s2 AND push_bit 0 1 \<noteq> 0 then
                  s2\<lparr>mavlink_system_mode :=
                       (mavlink_system_mode s2
                          OR (MAV_MODE_FLAG_AUTO_ENABLED OR MAV_MODE_FLAG_GUIDED_ENABLED))
                         AND NOT MAV_MODE_FLAG_MANUAL_INPUT_ENABLED\<rparr>
                else
                  s2\<lparr>mavlink_system_mode :=
                       (mavlink_system_mode s2
                          AND NOT (MAV_MODE_FLAG_AUTO_ENABLED OR MAV_MODE_FLAG_GUIDED_ENABLED))
                         OR MAV_MODE_FLAG_MANUAL_INPUT_ENABLED\<rparr>)
      in (if systemStatus_status s3 AND push_bit 1 1 \<noteq> 0 then
            s3\<lparr>mavlink_system_mode := mavlink_system_mode s3 OR MAV_MODE_FLAG_HIL_ENABLED\<rparr>
          else
            s3\<lparr>mavlink_system_mode :=
                 mavlink_system_mode s3 AND NOT MAV_MODE_FLAG_HIL_ENABLED\<rparr>))"

subsection \<open>\<^verbatim>\<open>MavLinkInit\<close>\<close>

definition MavLinkInit :: "mavlink_state \<Rightarrow> mavlink_state" where
  "MavLinkInit s =
     s\<lparr>scheduler :=
         AddMessage MAVLINK_MSG_ID_WSO100 2
           (AddMessage MAVLINK_MSG_ID_STATUS_AND_ERRORS 4
              (AddMessage MAVLINK_MSG_ID_GPS_RAW_INT 1
                 (AddMessage MAVLINK_MSG_ID_SYS_STATUS 1
                    (AddMessage MAVLINK_MSG_ID_HEARTBEAT 1 (scheduler s)))))\<rparr>"

subsection \<open>\<^verbatim>\<open>MavLinkTransmit\<close>\<close>

text \<open>The first \<^verbatim>\<open>switch\<close>: the parameter protocol. \<^verbatim>\<open>delayCountdown++ == 9\<close> compares the
  old value; on a match the counter is put back to 0.\<close>

definition param_protocol_step :: "mavlink_state \<Rightarrow> mavlink_state" where
  "param_protocol_step s =
     (case parameterProtocolState s of
        PARAM_STATE_SINGLETON_TRANSMIT_START \<Rightarrow>
          (add_transient MAVLINK_MSG_ID_PARAM_VALUE s)
            \<lparr>parameterProtocolState := PARAM_STATE_SINGLETON_TRANSMIT_WAITING\<rparr>
      | PARAM_STATE_SINGLETON_TRANSMIT_WAITING \<Rightarrow> s
      | PARAM_STATE_STREAM_TRANSMIT_START \<Rightarrow>
          s\<lparr>currentParameter := 0,
            parameterProtocolState := PARAM_STATE_STREAM_TRANSMIT_PARAM\<rparr>
      | PARAM_STATE_STREAM_TRANSMIT_PARAM \<Rightarrow>
          (if ucast (currentParameter s) < parameterCount
           then (add_transient MAVLINK_MSG_ID_PARAM_VALUE s)
                  \<lparr>parameterProtocolState := PARAM_STATE_STREAM_TRANSMIT_WAITING\<rparr>
           else s\<lparr>parameterProtocolState := PARAM_STATE_INACTIVE\<rparr>)
      | PARAM_STATE_STREAM_TRANSMIT_WAITING \<Rightarrow> s
      | PARAM_STATE_STREAM_TRANSMIT_DELAY \<Rightarrow>
          (if delayCountdown s = 9
           then s\<lparr>delayCountdown := 0,
                  parameterProtocolState := PARAM_STATE_STREAM_TRANSMIT_PARAM\<rparr>
           else s\<lparr>delayCountdown := delayCountdown s + 1\<rparr>)
      | PARAM_STATE_INACTIVE \<Rightarrow> s)"

text \<open>The second \<^verbatim>\<open>switch\<close>: the mission protocol. \<^verbatim>\<open>missionProtocolRequestCounter++ > 20\<close>
  compares the old value.\<close>

definition mission_protocol_step :: "mavlink_state \<Rightarrow> mavlink_state" where
  "mission_protocol_step s =
     (case missionProtocolState s of
        MISSION_STATE_REQUEST_LIST_START \<Rightarrow>
          (add_transient MAVLINK_MSG_ID_MISSION_COUNT s)
            \<lparr>missionProtocolRequestCounter := 0,
             currentMission := 0,
             missionProtocolState := MISSION_STATE_REQUEST_LIST_COUNTDOWN\<rparr>
      | MISSION_STATE_REQUEST_LIST_COUNTDOWN \<Rightarrow>
          (if missionProtocolRequestCounter s > 20
           then s\<lparr>missionProtocolRequestCounter := 0,
                  missionProtocolState := MISSION_STATE_INACTIVE\<rparr>
           else s\<lparr>missionProtocolRequestCounter := missionProtocolRequestCounter s + 1\<rparr>)
      | MISSION_STATE_REQUEST_LIST_RESPONSE \<Rightarrow>
          (add_transient MAVLINK_MSG_ID_MISSION_ITEM s)
            \<lparr>missionProtocolState := MISSION_STATE_REQUEST_LIST_WAITING\<rparr>
      | MISSION_STATE_REQUEST_LIST_WAITING \<Rightarrow> s
      | MISSION_STATE_INACTIVE \<Rightarrow> s)"

text \<open>The \<^verbatim>\<open>switch (currentParameter)\<close> of the \<^verbatim>\<open>PARAM_VALUE\<close> case.\<close>

definition transmit_current_parameter :: "mavlink_state \<Rightarrow> mavlink_state" where
  "transmit_current_parameter s =
     (if currentParameter s = 0 then transmitParameter0 s
      else if currentParameter s = 1 then transmitParameter1 s
      else if currentParameter s = 2 then transmitParameter2 s
      else if currentParameter s = 3 then transmitParameter3 s
      else s)"

text \<open>The body of the \<^verbatim>\<open>for\<close> loop over the messages due in this timestep.\<close>

fun send_message :: "MsgId \<Rightarrow> mavlink_state \<Rightarrow> mavlink_state" where
  "send_message MAVLINK_MSG_ID_HEARTBEAT s = MavLinkSendHeartbeat s"
| "send_message MAVLINK_MSG_ID_SYS_STATUS s = MavLinkSendStatus s"
| "send_message MAVLINK_MSG_ID_GPS_RAW_INT s = MavLinkSendRawGps s"
| "send_message MAVLINK_MSG_ID_STATUS_AND_ERRORS s = MavLinkSendStatusAndErrors s"
| "send_message MAVLINK_MSG_ID_WSO100 s = MavLinkSendWindAirData s"
| "send_message MAVLINK_MSG_ID_PARAM_VALUE s =
     (let s1 = transmit_current_parameter s
      in if parameterProtocolState s1 = PARAM_STATE_STREAM_TRANSMIT_WAITING
         then s1\<lparr>currentParameter := currentParameter s1 + 1,
                 parameterProtocolState := PARAM_STATE_STREAM_TRANSMIT_DELAY\<rparr>
         else if parameterProtocolState s1 = PARAM_STATE_SINGLETON_TRANSMIT_WAITING
         then s1\<lparr>parameterProtocolState := PARAM_STATE_INACTIVE\<rparr>
         else s1)"
| "send_message MAVLINK_MSG_ID_MISSION_COUNT s =
     (MavLinkMissionProtocolSend s)
       \<lparr>missionProtocolState := MISSION_STATE_REQUEST_LIST_COUNTDOWN\<rparr>"
| "send_message MAVLINK_MSG_ID_MISSION_ITEM s =
     (let s1 = MavLinkMissionItemSend s
      in s1\<lparr>currentMission := currentMission s1 + 1,
             missionProtocolRequestCounter := 0,
             missionProtocolState := MISSION_STATE_REQUEST_LIST_COUNTDOWN\<rparr>)"
| "send_message (MAVLINK_MSG_ID_OTHER n) s = s"

definition MavLinkTransmit :: "mavlink_state \<Rightarrow> mavlink_state" where
  "MavLinkTransmit s =
     (let s1 = mission_protocol_step (param_protocol_step s);
          messagesToSend = fst (IncrementTimestep (scheduler s1));
          s2 = s1\<lparr>scheduler := snd (IncrementTimestep (scheduler s1))\<rparr>
      in fold send_message messagesToSend s2)"

text \<open>\<open>n\<close> consecutive calls of \<^verbatim>\<open>MavLinkTransmit\<close> with no inbound frame in between.\<close>

fun transmit_passes :: "nat \<Rightarrow> mavlink_state \<Rightarrow> mavlink_state" where
  "transmit_passes 0 s = s"
| "transmit_passes (Suc n) s = transmit_passes n (MavLinkTransmit s)"

subsection \<open>\<^verbatim>\<open>MavLinkReceive\<close>\<close>

definition mission_ack ::
  "8 word \<Rightarrow> 8 word \<Rightarrow> MAV_MISSION_RESULT \<Rightarrow> mavlink_state \<Rightarrow> mavlink_state" where
  "mission_ack sid cid r s = uart1EnqueueData (MISSION_ACK_out sid cid r) s"

definition mission_request ::
  "8 word \<Rightarrow> 8 word \<Rightarrow> 16 word \<Rightarrow> mavlink_state \<Rightarrow> mavlink_state" where
  "mission_request sid cid n s = uart1EnqueueData (MISSION_REQUEST_out sid cid n) s"

text \<open>The \<^verbatim>\<open>if (data.param_uint32) status |= (1 << n); else status &= ~(1 << n);\<close> of the
  \<^verbatim>\<open>PARAM_SET\<close> case; the float value is read through the union as its bit pattern.\<close>

definition set_status_bit :: "nat \<Rightarrow> 32 word \<Rightarrow> mavlink_state \<Rightarrow> mavlink_state" where
  "set_status_bit n v s =
     (if v \<noteq> 0
      then s\<lparr>systemStatus_status := systemStatus_status s OR push_bit n 1\<rparr>
      else s\<lparr>systemStatus_status := systemStatus_status s AND NOT (push_bit n 1)\<rparr>)"

definition mission_of_item :: "mission_item \<Rightarrow> Mission" where
  "mission_of_item it =
     \<lparr>coordinates = [item_x it, item_y it, item_z it],
      refFrame = item_frame it,
      action = item_command it,
      parameters = [item_param1 it, item_param2 it, item_param3 it, item_param4 it],
      autocontinue = item_autocontinue it\<rparr>"

text \<open>Latching the first ground station seen, done for every decoded frame before the
  \<^verbatim>\<open>switch\<close>.\<close>

definition latch_groundstation :: "mavlink_message \<Rightarrow> mavlink_state \<Rightarrow> mavlink_state" where
  "latch_groundstation msg s =
     (if groundStationSystemId s = 0 \<and> groundStationComponentId s = 0
      then s\<lparr>groundStationSystemId := msg_sysid msg,
             groundStationComponentId := msg_compid msg\<rparr>
      else s)"

text \<open>The \<^verbatim>\<open>switch (msg.msgid)\<close>; \<open>sid\<close> and \<open>cid\<close> are \<^verbatim>\<open>msg.sysid\<close> and \<^verbatim>\<open>msg.compid\<close>.\<close>

fun handle_payload :: "8 word \<Rightarrow> 8 word \<Rightarrow> in_payload \<Rightarrow> mavlink_state \<Rightarrow> mavlink_state" where
  "handle_payload sid cid (MISSION_COUNT_in n) s =
     (if systemStatus_status s AND 1 > 0
      then mission_ack sid cid MAV_MISSION_ERROR s
      else (let s1 = s\<lparr>mList := ClearMissionList (mList s),
                        mavlinkNewMissionListSize := n\<rparr>
            in if mavlinkNewMissionListSize s1 = 0
               then mission_ack sid cid MAV_MISSION_ERROR s1
               else if unat (mavlinkNewMissionListSize s1) > maxSize (mList s1)
               then mission_ack sid cid MAV_MISSION_NO_SPACE s1
               else mission_request sid cid 0 s1))"
| "handle_payload sid cid (MISSION_ITEM_in it) s =
     (if ucast (GetMissionCount (mList s)) = item_seq it
      then (let missionAddStatus = snd (AppendMission (mission_of_item it) (mList s));
                s1 = s\<lparr>mList := fst (AppendMission (mission_of_item it) (mList s))\<rparr>
            in if missionAddStatus \<noteq> - 1
               then (let s2 = (if item_current it \<noteq> 0
                               then s1\<lparr>mList :=
                                        SetCurrentMission (ucast (item_seq it)) (mList s1)\<rparr>
                               else s1)
                     in if missionAddStatus = uint (mavlinkNewMissionListSize s2)
                        then mission_ack sid cid MAV_MISSION_ACCEPTED s2
                        else mission_request sid cid (item_seq it + 1) s2)
               else mission_ack sid cid MAV_MISSION_NO_SPACE s1)
      else mission_ack sid cid MAV_MISSION_INVALID_SEQUENCE s)"
| "handle_payload sid cid MISSION_REQUEST_LIST_in s =
     (if missionProtocolState s = MISSION_STATE_INACTIVE
      then s\<lparr>missionProtocolState := MISSION_STATE_REQUEST_LIST_START\<rparr>
      else s)"
| "handle_payload sid cid (MISSION_REQUEST_in n) s =
     (if currentMission s = (ucast n :: 8 word)
      then s\<lparr>missionProtocolState := MISSION_STATE_REQUEST_LIST_RESPONSE\<rparr>
      else s)"
| "handle_payload sid cid MISSION_CLEAR_ALL_in s =
     mission_ack sid cid MAV_MISSION_ACCEPTED (s\<lparr>mList := ClearMissionList (mList s)\<rparr>)"
| "handle_payload sid cid (MISSION_SET_CURRENT_in n) s =
     MavLinkSendCurrentMission (s\<lparr>mList := SetCurrentMission (ucast n) (mList s)\<rparr>)"
| "handle_payload sid cid MISSION_ACK_in s = s"
| "handle_payload sid cid PARAM_REQUEST_LIST_in s =
     (if parameterProtocolState s = PARAM_STATE_INACTIVE
      then s\<lparr>parameterProtocolState := PARAM_STATE_STREAM_TRANSMIT_START\<rparr>
      else s)"
| "handle_payload sid cid (PARAM_REQUEST_READ_in n) s =
     (if parameterProtocolState s = PARAM_STATE_INACTIVE
      then s\<lparr>currentParameter := ucast n,
             parameterProtocolState := PARAM_STATE_SINGLETON_TRANSMIT_START\<rparr>
      else s)"
| "handle_payload sid cid (PARAM_SET_in param_id param_value) s =
     (if parameterProtocolState s = PARAM_STATE_INACTIVE
      then (let s1 =
                 (if param_id = ''MODE_AUTO''
                  then transmitParameter0 ((set_status_bit 0 param_value s)\<lparr>currentParameter := 0\<rparr>)
                  else if param_id = ''MODE_HIL''
                  then transmitParameter1 ((set_status_bit 1 param_value s)\<lparr>currentParameter := 1\<rparr>)
                  else if param_id = ''MODE_HILSENSE''
                  then transmitParameter2 ((set_status_bit 2 param_value s)\<lparr>currentParameter := 2\<rparr>)
                  else if param_id = ''MODE_RCDISCON''
                  then transmitParameter3 ((set_status_bit 3 param_value s)\<lparr>currentParameter := 3\<rparr>)
                  else s)
            in s1\<lparr>parameterProtocolState := PARAM_STATE_SINGLETON_TRANSMIT_START\<rparr>)
      else s)"
| "handle_payload sid cid OTHER_in s = s"

definition handle_message :: "mavlink_message \<Rightarrow> mavlink_state \<Rightarrow> mavlink_state" where
  "handle_message msg s =
     handle_payload (msg_sysid msg) (msg_compid msg) (msg_payload msg) (latch_groundstation msg s)"


text \<open>The static initializers of the module, around a given mission store and an empty
  scheduler.\<close>

definition initial_state :: "MissionList \<Rightarrow> mavlink_state" where
  "initial_state ml =
     \<lparr>mavlink_system_state = MAV_STATE_UNINIT,
      mavlink_system_mode = 0,
      groundStationSystemId = 0,
      groundStationComponentId = 0,
      currentParameter = 0,
      parameterProtocolState = PARAM_STATE_INACTIVE,
      currentMission = 0,
      missionProtocolState = MISSION_STATE_INACTIVE,
      delayCountdown = 0,
      missionProtocolRequestCounter = 0,
      mavlinkNewMissionListSize = 0,
      systemStatus_status = 0,
      systemStatus_reset = 0,
      mList = ml,
      scheduler = \<lparr>registrations = [], transients = [], now = 0\<rparr>,
      uart1 = []\<rparr>"

section \<open>Primary node: \<^verbatim>\<open>Code/Primary_node/PrimaryNode.c\<close>\<close>

subsection \<open>Data\<close>

text \<open>
  \<^verbatim>\<open>PrimaryNode.h\<close> is not part of these sources, so the values of the status and error
  flags, of \<^verbatim>\<open>RTB_RESET_MASK\<close> and the helper \<^verbatim>\<open>int2hexchar\<close> are parameters of the model.
  Only the flags used by the modelled blocks are listed.
\<close>

record node_flags =
  PRIMARY_NODE_STATUS_AUTOMODE :: "16 word"
  PRIMARY_NODE_STATUS_GPS_INVALID :: "16 word"
  PRIMARY_NODE_RESET_GPS_DISCONNECTED :: "16 word"
  PRIMARY_NODE_RESET_RUDDER_ERRORS :: "16 word"
  PRIMARY_NODE_RESET_RTB :: "16 word"
  RTB_RESET_MASK :: "16 word"
  int2hexchar :: "16 word \<Rightarrow> char"

datatype PrimaryNodeMode = PRIMARY_MODE_MANUAL | PRIMARY_MODE_AUTONOMOUS

datatype MAV_SEVERITY = MAV_SEVERITY_EMERGENCY | MAV_SEVERITY_NOTICE | MAV_SEVERITY_INFO

datatype mavlink_channel = MAVLINK_CHAN_GROUNDSTATION | MAVLINK_CHAN_DATALOGGER

text \<open>
  Calls into other modules, recorded in the order they are made:
  \<^verbatim>\<open>ActuatorsTransmitCommands(rudder, throttle, force)\<close>,
  \<^verbatim>\<open>MavLinkSendStatusText(severity, text)\<close>, \<^verbatim>\<open>MavLinkSendHeartbeat(channel)\<close>,
  \<^verbatim>\<open>SendAudioStatusUpdate()\<close> and \<^verbatim>\<open>MavLinkTransmitAllParameters()\<close>.
\<close>

datatype node_call =
    Call_ActuatorsTransmitCommands real int bool
  | Call_MavLinkSendStatusText MAV_SEVERITY string
  | Call_MavLinkSendHeartbeat mavlink_channel
  | Call_SendAudioStatusUpdate
  | Call_MavLinkTransmitAllParameters

text \<open>
  The globals the modelled blocks touch; \<open>last_gpsActive\<close> and \<open>last_rudderActive\<close> are
  the fields \<^verbatim>\<open>gpsActive\<close> and \<^verbatim>\<open>rudderActive\<close> of \<^verbatim>\<open>lastSensorAvailability\<close>, and
  \<open>lastErrorState\<close> is the static of \<^verbatim>\<open>main\<close>.
\<close>

record node_state =
  nodeStatus :: "16 word"
  nodeErrors :: "16 word"
  lastErrorState :: "16 word"
  last_gpsActive :: bool
  last_rudderActive :: bool
  sayStatusCounter :: "16 word"
  calls :: "node_call list"

text \<open>The part of \<^verbatim>\<open>sensorAvailability\<close> the modelled blocks read.\<close>

record sensor_snapshot =
  gps_active :: bool
  gps_last_active :: "32 word"
  rudder_enabled :: bool
  rudder_active :: bool

definition GPS_DISCONNECTION_TIME :: "32 word" where
  "GPS_DISCONNECTION_TIME = 1000"

subsection \<open>Mode\<close>

text \<open>The macro \<^verbatim>\<open>IS_AUTONOMOUS()\<close> is declared in the absent header; it is taken to test
  the bit that \<^verbatim>\<open>GetAutoMode\<close> tests and \<^verbatim>\<open>SetAutoMode\<close> sets and clears.\<close>

definition IS_AUTONOMOUS :: "node_flags \<Rightarrow> node_state \<Rightarrow> bool" where
  "IS_AUTONOMOUS c s = (nodeStatus s AND PRIMARY_NODE_STATUS_AUTOMODE c \<noteq> 0)"

definition GetAutoMode :: "node_flags \<Rightarrow> node_state \<Rightarrow> PrimaryNodeMode" where
  "GetAutoMode c s =
     (if nodeStatus s AND PRIMARY_NODE_STATUS_AUTOMODE c > 0
      then PRIMARY_MODE_AUTONOMOUS else PRIMARY_MODE_MANUAL)"

definition record_call :: "node_call \<Rightarrow> node_state \<Rightarrow> node_state" where
  "record_call e s = s\<lparr>calls := calls s @ [e]\<rparr>"

definition SetAutoMode :: "node_flags \<Rightarrow> PrimaryNodeMode \<Rightarrow> node_state \<Rightarrow> node_state" where
  "SetAutoMode c newMode s =
     (if newMode = PRIMARY_MODE_AUTONOMOUS \<and> \<not> IS_AUTONOMOUS c s
           \<and> \<not> (nodeErrors s AND RTB_RESET_MASK c \<noteq> 0)
      then
        (let s1 = s\<lparr>nodeStatus := nodeStatus s OR PRIMARY_NODE_STATUS_AUTOMODE c\<rparr>;
             s2 = record_call (Call_MavLinkSendHeartbeat MAVLINK_CHAN_GROUNDSTATION) s1;
             s3 = record_call (Call_MavLinkSendHeartbeat MAVLINK_CHAN_DATALOGGER) s2;
             s4 = (record_call Call_SendAudioStatusUpdate s3)\<lparr>sayStatusCounter := 0\<rparr>
         in record_call Call_MavLinkTransmitAllParameters s4)
      else if IS_AUTONOMOUS c s
      then
        (let s1 = s\<lparr>nodeStatus := nodeStatus s AND NOT (PRIMARY_NODE_STATUS_AUTOMODE c)\<rparr>;
             s2 = (if nodeErrors s1 AND PRIMARY_NODE_RESET_RTB c \<noteq> 0
                   then record_call
                          (Call_MavLinkSendStatusText MAV_SEVERITY_NOTICE
                             ''Exiting return-to-base protocol'')
                          (s1\<lparr>nodeErrors := nodeErrors s1 AND NOT (PRIMARY_NODE_RESET_RTB c)\<rparr>)
                   else s1);
             s3 = record_call (Call_MavLinkSendHeartbeat MAVLINK_CHAN_GROUNDSTATION) s2
         in record_call (Call_MavLinkSendHeartbeat MAVLINK_CHAN_DATALOGGER) s3)
      else s)"

subsection \<open>Blocks of the main loop\<close>

text \<open>Lines 293-299 and, repeated, 311-317: the GPS activity edge.\<close>

definition gps_active_check :: "node_flags \<Rightarrow> sensor_snapshot \<Rightarrow> node_state \<Rightarrow> node_state" where
  "gps_active_check c sa s =
     (if last_gpsActive s \<and> \<not> gps_active sa
      then s\<lparr>nodeErrors := nodeErrors s OR PRIMARY_NODE_STATUS_GPS_INVALID c,
             last_gpsActive := False\<rparr>
      else if \<not> last_gpsActive s \<and> gps_active sa
      then s\<lparr>nodeErrors := nodeErrors s AND NOT (PRIMARY_NODE_STATUS_GPS_INVALID c),
             last_gpsActive := True\<rparr>
      else s)"

text \<open>Lines 302-310: the GPS disconnection timeout; \<open>t\<close> is \<^verbatim>\<open>nodeSystemTime\<close>. The
  subtraction is unsigned 32-bit.\<close>

definition gps_disconnected_check ::
  "node_flags \<Rightarrow> sensor_snapshot \<Rightarrow> 32 word \<Rightarrow> node_state \<Rightarrow> node_state" where
  "gps_disconnected_check c sa t s =
     (if nodeErrors s AND PRIMARY_NODE_RESET_GPS_DISCONNECTED c \<noteq> 0
      then (if gps_active sa
            then s\<lparr>nodeErrors := nodeErrors s AND NOT (PRIMARY_NODE_RESET_GPS_DISCONNECTED c)\<rparr>
            else s)
      else (if t - gps_last_active sa \<ge> GPS_DISCONNECTION_TIME
            then s\<lparr>nodeErrors := nodeErrors s OR PRIMARY_NODE_RESET_GPS_DISCONNECTED c\<rparr>
            else s))"

text \<open>Lines 293-317 in sequence.\<close>

definition gps_checks ::
  "node_flags \<Rightarrow> sensor_snapshot \<Rightarrow> 32 word \<Rightarrow> node_state \<Rightarrow> node_state" where
  "gps_checks c sa t s =
     gps_active_check c sa (gps_disconnected_check c sa t (gps_active_check c sa s))"

text \<open>Lines 397-404: the rudder activity edge.\<close>

definition rudder_active_check ::
  "node_flags \<Rightarrow> sensor_snapshot \<Rightarrow> node_state \<Rightarrow> node_state" where
  "rudder_active_check c sa s =
     (if last_rudderActive s \<and> \<not> rudder_active sa
      then s\<lparr>nodeErrors := nodeErrors s OR PRIMARY_NODE_RESET_RUDDER_ERRORS c,
             last_rudderActive := False\<rparr>
      else if rudder_enabled sa \<and> \<not> last_rudderActive s \<and> rudder_active sa
      then s\<lparr>nodeErrors := nodeErrors s AND NOT (PRIMARY_NODE_RESET_RUDDER_ERRORS c),
             last_rudderActive := True\<rparr>
      else s)"

text \<open>The text of the return-to-base announcement: the four hexadecimal digits of the
  reason are written at offsets 43 to 46 of the template.\<close>

definition rtb_announcement :: "node_flags \<Rightarrow> 16 word \<Rightarrow> string" where
  "rtb_announcement c rtbErrors =
     (''Enacting return-to-base protocol (reason 0x0000)'')
       [43 := int2hexchar c (drop_bit 12 rtbErrors AND 0xF),
        44 := int2hexchar c (drop_bit 8 rtbErrors AND 0xF),
        45 := int2hexchar c (drop_bit 4 rtbErrors AND 0xF),
        46 := int2hexchar c (rtbErrors AND 0xF)]"

text \<open>Lines 453-471: the return-to-base check.\<close>

definition rtb_check :: "node_flags \<Rightarrow> node_state \<Rightarrow> node_state" where
  "rtb_check c s =
     (if nodeErrors s \<noteq> lastErrorState s
      then
        (let rtbErrors = nodeErrors s AND RTB_RESET_MASK c;
             s1 = (if IS_AUTONOMOUS c s \<and> rtbErrors \<noteq> 0
                   then
                     (let s2 = record_call (Call_ActuatorsTransmitCommands 0 0 True) s
                      in if \<not> (nodeErrors s2 AND PRIMARY_NODE_RESET_RTB c \<noteq> 0)
                         then (record_call
                                 (Call_MavLinkSendStatusText MAV_SEVERITY_EMERGENCY
                                    (rtb_announcement c rtbErrors)) s2)
                                \<lparr>nodeErrors := nodeErrors s2 OR PRIMARY_NODE_RESET_RTB c\<rparr>
                         else s2)
                   else s)
         in s1\<lparr>lastErrorState := nodeErrors s1\<rparr>)
      else s)"

text \<open>Whether a recorded call is the return-to-base announcement, and the calls a step
  added to the record.\<close>

fun is_rtb_announcement :: "node_call \<Rightarrow> bool" where
  "is_rtb_announcement (Call_MavLinkSendStatusText MAV_SEVERITY_EMERGENCY txt) = True"
| "is_rtb_announcement e = False"

definition new_calls :: "node_state \<Rightarrow> node_state \<Rightarrow> node_call list" where
  "new_calls s s' = drop (length (calls s)) (calls s')"

text \<open>The condition of the return-to-base check: autonomous, and a flag of the mask set.\<close>

definition rtb_condition :: "node_flags \<Rightarrow> node_state \<Rightarrow> bool" where
  "rtb_condition c s = (IS_AUTONOMOUS c s \<and> nodeErrors s AND RTB_RESET_MASK c \<noteq> 0)"

subsection \<open>Example values\<close>

definition hexchar :: "16 word \<Rightarrow> char" where
  "hexchar x = ''0123456789ABCDEF'' ! unat (x AND 0xF)"

text \<open>
  An assignment of the flags for the examples: distinct single bits; the return-to-base
  mask holds the GPS disconnection and the rudder error flags (the comment above the
  rudder activity edge says that a rudder error triggers return-to-base in autonomous
  mode), and not the return-to-base flag itself.
\<close>

definition example_flags :: node_flags where
  "example_flags =
     \<lparr>PRIMARY_NODE_STATUS_AUTOMODE = 0x0001,
      PRIMARY_NODE_STATUS_GPS_INVALID = 0x0002,
      PRIMARY_NODE_RESET_GPS_DISCONNECTED = 0x0004,
      PRIMARY_NODE_RESET_RUDDER_ERRORS = 0x0008,
      PRIMARY_NODE_RESET_RTB = 0x0010,
      RTB_RESET_MASK = 0x000C,
      int2hexchar = hexchar\<rparr>"

text \<open>Autonomous, no error flag set, every sensor active on the previous pass.\<close>

definition autonomous_state :: node_state where
  "autonomous_state =
     \<lparr>nodeStatus = 0x0001, nodeErrors = 0, lastErrorState = 0,
      last_gpsActive = True, last_rudderActive = True, sayStatusCounter = 0, calls = []\<rparr>"

definition all_active :: sensor_snapshot where
  "all_active =
     \<lparr>gps_active = True, gps_last_active = 0, rudder_enabled = True, rudder_active = True\<rparr>"

definition rudder_lost :: sensor_snapshot where
  "rudder_lost =
     \<lparr>gps_active = True, gps_last_active = 0, rudder_enabled = True, rudder_active = False\<rparr>"

section \<open>Observations, traces and example values\<close>

subsection \<open>Primary node\<close>

text \<open>Consecutive passes of the return-to-base check. Before each pass the other blocks of
  the main loop leave some error word in \<^verbatim>\<open>nodeErrors\<close>; the list gives these words, one per
  pass. The mode is not changed in between.\<close>

fun rtb_passes :: "node_flags \<Rightarrow> 16 word list \<Rightarrow> node_state \<Rightarrow> node_state" where
  "rtb_passes c [] s = s"
| "rtb_passes c (e # es) s = rtb_passes c es (rtb_check c (s\<lparr>nodeErrors := e\<rparr>))"

text \<open>A rudder that drops out, recovers and drops out again while the vehicle stays autonomous:
  the state before and after the return-to-base check of three consecutive passes.\<close>

definition first_loss :: node_state where
  "first_loss = rudder_active_check example_flags rudder_lost autonomous_state"

definition after_first_loss :: node_state where
  "after_first_loss = rtb_check example_flags first_loss"

definition recovery :: node_state where
  "recovery = rudder_active_check example_flags all_active after_first_loss"

definition after_recovery :: node_state where
  "after_recovery = rtb_check example_flags recovery"

definition second_loss :: node_state where
  "second_loss = rudder_active_check example_flags rudder_lost after_recovery"

definition after_second_loss :: node_state where
  "after_second_loss = rtb_check example_flags second_loss"

text \<open>Autonomous with the return-to-base flag and a rudder error set, as the first of these
  passes leaves it.\<close>

definition rtb_engaged :: node_state where
  "rtb_engaged =
     \<lparr>nodeStatus = 0x0001, nodeErrors = 0x0018, lastErrorState = 0x0018,
      last_gpsActive = True, last_rudderActive = False, sayStatusCounter = 0, calls = []\<rparr>"

definition gps_lost :: sensor_snapshot where
  "gps_lost =
     \<lparr>gps_active = False, gps_last_active = 0, rudder_enabled = True, rudder_active = True\<rparr>"

definition rudder_back_disabled :: sensor_snapshot where
  "rudder_back_disabled =
     \<lparr>gps_active = True, gps_last_active = 0, rudder_enabled = False, rudder_active = True\<rparr>"

subsection \<open>Ground-station link\<close>

text \<open>The indices of the \<^verbatim>\<open>PARAM_VALUE\<close> messages, and the mission count and mission item
  messages, among the messages enqueued on UART1.\<close>

fun param_indices :: "out_msg list \<Rightarrow> 16 word list" where
  "param_indices [] = []"
| "param_indices (PARAM_VALUE_out nm v cnt i # ms) = i # param_indices ms"
| "param_indices (m # ms) = param_indices ms"

fun mission_msgs :: "out_msg list \<Rightarrow> out_msg list" where
  "mission_msgs [] = []"
| "mission_msgs (MISSION_COUNT_out a b n # ms) = MISSION_COUNT_out a b n # mission_msgs ms"
| "mission_msgs (MISSION_ITEM_out a b n m c # ms) = MISSION_ITEM_out a b n m c # mission_msgs ms"
| "mission_msgs (m # ms) = mission_msgs ms"

text \<open>What the parameter protocol and the mission protocol can observe of the state.\<close>

definition param_view :: "mavlink_state \<Rightarrow> 8 word \<times> ParamState \<times> 8 word \<times> 16 word list" where
  "param_view s =
     (currentParameter s, parameterProtocolState s, delayCountdown s, param_indices (uart1 s))"

definition mission_view ::
  "mavlink_state \<Rightarrow> MissionState \<times> 8 word \<times> 8 word \<times> MissionList \<times> 8 word \<times> 8 word \<times> out_msg list" where
  "mission_view s =
     (missionProtocolState s, currentMission s, missionProtocolRequestCounter s, mList s,
      groundStationSystemId s, groundStationComponentId s, mission_msgs (uart1 s))"

text \<open>The scheduler holds no \<^verbatim>\<open>PARAM_VALUE\<close> (no mission message) other than those the
  protocol itself requests: none is registered as periodic and none is pending.
  \<^verbatim>\<open>MavLinkInit\<close> registers neither.\<close>

definition param_quiet :: "Scheduler \<Rightarrow> bool" where
  "param_quiet sch =
     (MAVLINK_MSG_ID_PARAM_VALUE \<notin> set (map fst (registrations sch))
      \<and> MAVLINK_MSG_ID_PARAM_VALUE \<notin> set (transients sch))"

definition mission_quiet :: "Scheduler \<Rightarrow> bool" where
  "mission_quiet sch =
     (MAVLINK_MSG_ID_MISSION_COUNT \<notin> set (map fst (registrations sch))
      \<and> MAVLINK_MSG_ID_MISSION_ITEM \<notin> set (map fst (registrations sch))
      \<and> MAVLINK_MSG_ID_MISSION_COUNT \<notin> set (transients sch)
      \<and> MAVLINK_MSG_ID_MISSION_ITEM \<notin> set (transients sch))"

text \<open>The transient messages the two protocol switches request in a pass.\<close>

definition param_transients :: "mavlink_state \<Rightarrow> MsgId list" where
  "param_transients s =
     (if parameterProtocolState s = PARAM_STATE_SINGLETON_TRANSMIT_START
         \<or> (parameterProtocolState s = PARAM_STATE_STREAM_TRANSMIT_PARAM
             \<and> ucast (currentParameter s) < parameterCount)
      then [MAVLINK_MSG_ID_PARAM_VALUE] else [])"

definition mission_transients :: "mavlink_state \<Rightarrow> MsgId list" where
  "mission_transients s =
     (case missionProtocolState s of
        MISSION_STATE_REQUEST_LIST_START \<Rightarrow> [MAVLINK_MSG_ID_MISSION_COUNT]
      | MISSION_STATE_REQUEST_LIST_RESPONSE \<Rightarrow> [MAVLINK_MSG_ID_MISSION_ITEM]
      | _ \<Rightarrow> [])"

text \<open>The names the \<^verbatim>\<open>PARAM_SET\<close> case compares against, in the order of their indices.\<close>

definition param_registry :: "string list" where
  "param_registry = [''MODE_AUTO'', ''MODE_HIL'', ''MODE_HILSENSE'', ''MODE_RCDISCON'']"

text \<open>Example stores, frames and states.\<close>

definition gcs_frame :: "in_payload \<Rightarrow> mavlink_message" where
  "gcs_frame p = \<lparr>msg_sysid = 255, msg_compid = 190, msg_payload = p\<rparr>"

definition waypoint :: "16 word \<Rightarrow> 8 word \<Rightarrow> mission_item" where
  "waypoint n cur =
     \<lparr>item_seq = n, item_frame = 0, item_command = 16, item_current = cur,
      item_autocontinue = 1, item_param1 = 0, item_param2 = 0, item_param3 = 0,
      item_param4 = 0, item_x = 0, item_y = 0, item_z = 0\<rparr>"

definition empty_store :: MissionList where
  "empty_store = \<lparr>missions = [], maxSize = 4, currentIndex = 0\<rparr>"

definition one_waypoint_store :: MissionList where
  "one_waypoint_store =
     \<lparr>missions = [mission_of_item (waypoint 0 1)], maxSize = 4, currentIndex = 0\<rparr>"

definition full_store :: MissionList where
  "full_store =
     \<lparr>missions = [mission_of_item (waypoint 0 1)], maxSize = 1, currentIndex = 0\<rparr>"

definition booted :: "MissionList \<Rightarrow> mavlink_state" where
  "booted ml = MavLinkInit (initial_state ml)"

definition autonomous_link :: mavlink_state where
  "autonomous_link = (booted one_waypoint_store)\<lparr>systemStatus_status := 1\<rparr>"

definition stream_busy :: mavlink_state where
  "stream_busy =
     (booted empty_store)\<lparr>parameterProtocolState := PARAM_STATE_STREAM_TRANSMIT_WAITING\<rparr>"

definition single_pending :: mavlink_state where
  "single_pending =
     (booted empty_store)
       \<lparr>currentParameter := 2, parameterProtocolState := PARAM_STATE_SINGLETON_TRANSMIT_START\<rparr>"

section \<open>Properties\<close>

subsection \<open>Bit masks\<close>

lemma or_and_self: "(x OR m) AND m = (m :: 16 word)"
  by (simp add: bit_eq_iff bit_and_iff bit_or_iff)

lemma and_not_self: "(x AND NOT m) AND m = (0 :: 16 word)"
  by (simp add: bit_eq_iff bit_and_iff bit_not_iff)

lemma and_or_disjoint: "g AND d = 0 \<Longrightarrow> (x OR d) AND g = x AND (g :: 16 word)"
  by (auto simp add: bit_eq_iff bit_and_iff bit_or_iff)

lemma and_not_disjoint: "g AND d = 0 \<Longrightarrow> (x AND NOT d) AND g = x AND (g :: 16 word)"
  by (auto simp add: bit_eq_iff bit_and_iff bit_not_iff)

lemma ucast_8_16_unat: "unat (ucast (c :: 8 word) :: 16 word) = unat c"
proof -
  have "unat c < 256" using unsigned_less [of c, where ?'a = nat] by simp
  then show ?thesis by (simp add: unsigned_ucast_eq take_bit_eq_mod)
qed


subsection \<open>The return-to-base check\<close>

lemmas ex_defs = example_flags_def rudder_lost_def all_active_def autonomous_state_def
  rudder_active_check_def rtb_check_def IS_AUTONOMOUS_def record_call_def Let_def
  rtb_condition_def new_calls_def

lemma rtb_check_calls:
  "calls (rtb_check c s) = calls s @
     (if nodeErrors s \<noteq> lastErrorState s \<and> rtb_condition c s
      then Call_ActuatorsTransmitCommands 0 0 True #
             (if nodeErrors s AND PRIMARY_NODE_RESET_RTB c = 0
              then [Call_MavLinkSendStatusText MAV_SEVERITY_EMERGENCY
                      (rtb_announcement c (nodeErrors s AND RTB_RESET_MASK c))]
              else [])
      else [])"
  by (simp add: rtb_check_def rtb_condition_def record_call_def Let_def)

lemma rtb_check_nodeErrors:
  "nodeErrors (rtb_check c s) =
     (if nodeErrors s \<noteq> lastErrorState s \<and> rtb_condition c s
         \<and> nodeErrors s AND PRIMARY_NODE_RESET_RTB c = 0
      then nodeErrors s OR PRIMARY_NODE_RESET_RTB c else nodeErrors s)"
  by (simp add: rtb_check_def rtb_condition_def record_call_def Let_def)

lemma rtb_passes_latched:
  "\<forall>e \<in> set es. e AND PRIMARY_NODE_RESET_RTB c \<noteq> 0 \<Longrightarrow>
     filter is_rtb_announcement (calls (rtb_passes c es s))
       = filter is_rtb_announcement (calls s)"
proof (induction es arbitrary: s)
  case Nil
  then show ?case by simp
next
  case (Cons e es)
  have "filter is_rtb_announcement (calls (rtb_check c (s\<lparr>nodeErrors := e\<rparr>)))
          = filter is_rtb_announcement (calls s)"
    using Cons.prems by (simp add: rtb_check_calls)
  with Cons show ?case by simp
qed

lemma rtb_passes_calls: "\<exists>xs. calls (rtb_passes c es s) = calls s @ xs"
proof (induction es arbitrary: s)
  case Nil
  then show ?case by simp
next
  case (Cons e es)
  obtain xs where "calls (rtb_passes c es (rtb_check c (s\<lparr>nodeErrors := e\<rparr>)))
      = calls (rtb_check c (s\<lparr>nodeErrors := e\<rparr>)) @ xs"
    using Cons.IH by blast
  then show ?case by (simp add: rtb_check_calls)
qed

lemma first_loss_eq: "first_loss = autonomous_state\<lparr>nodeErrors := 8, last_rudderActive := False\<rparr>"
  by (simp add: first_loss_def ex_defs)

lemma after_first_loss_eq:
  "after_first_loss = autonomous_state\<lparr>nodeErrors := 24, lastErrorState := 24, last_rudderActive := False,
     calls := [Call_ActuatorsTransmitCommands 0 0 True,
       Call_MavLinkSendStatusText MAV_SEVERITY_EMERGENCY (rtb_announcement example_flags 8)]\<rparr>"
  by (simp add: after_first_loss_def first_loss_eq) (simp add: ex_defs)

lemma recovery_eq: "recovery = after_first_loss\<lparr>nodeErrors := 16, last_rudderActive := True\<rparr>"
  by (simp add: recovery_def after_first_loss_eq) (simp add: ex_defs)

lemma after_recovery_eq: "after_recovery = recovery\<lparr>lastErrorState := 16\<rparr>"
  by (simp add: after_recovery_def recovery_eq after_first_loss_eq) (simp add: ex_defs)

lemma second_loss_eq: "second_loss = after_recovery\<lparr>nodeErrors := 24, last_rudderActive := False\<rparr>"
  by (simp add: second_loss_def after_recovery_eq recovery_eq after_first_loss_eq) (simp add: ex_defs)

text \<open>Claim C1, as amended. On every pass of the main loop on which \<^verbatim>\<open>nodeErrors\<close> differs from
  \<^verbatim>\<open>lastErrorState\<close>, if the vehicle is autonomous and a flag of \<^verbatim>\<open>RTB_RESET_MASK\<close> is set,
  \<^verbatim>\<open>ActuatorsTransmitCommands(0.0, 0, true)\<close> is called; no other pass calls anything. The
  operator is notified on such a pass exactly when the return-to-base flag is not yet set
  in \<^verbatim>\<open>nodeErrors\<close>, and that pass sets the flag. While the flag stays set no pass notifies,
  whatever the error word does in between: the announcement is made once per latch of the
  flag, not once per rising edge of the condition.\<close>

theorem rtb_check_latched_announcement:
  "new_calls s (rtb_check c s) =
     (if nodeErrors s \<noteq> lastErrorState s \<and> rtb_condition c s
      then Call_ActuatorsTransmitCommands 0 0 True #
             (if nodeErrors s AND PRIMARY_NODE_RESET_RTB c = 0
              then [Call_MavLinkSendStatusText MAV_SEVERITY_EMERGENCY
                      (rtb_announcement c (nodeErrors s AND RTB_RESET_MASK c))]
              else [])
      else [])
   \<and> nodeErrors (rtb_check c s) =
       (if nodeErrors s \<noteq> lastErrorState s \<and> rtb_condition c s
           \<and> nodeErrors s AND PRIMARY_NODE_RESET_RTB c = 0
        then nodeErrors s OR PRIMARY_NODE_RESET_RTB c else nodeErrors s)
   \<and> ((\<forall>e \<in> set es. e AND PRIMARY_NODE_RESET_RTB c \<noteq> 0) \<longrightarrow>
        filter is_rtb_announcement (new_calls s (rtb_passes c es s)) = [])"
proof (intro conjI impI)
  show "new_calls s (rtb_check c s) =
     (if nodeErrors s \<noteq> lastErrorState s \<and> rtb_condition c s
      then Call_ActuatorsTransmitCommands 0 0 True #
             (if nodeErrors s AND PRIMARY_NODE_RESET_RTB c = 0
              then [Call_MavLinkSendStatusText MAV_SEVERITY_EMERGENCY
                      (rtb_announcement c (nodeErrors s AND RTB_RESET_MASK c))]
              else [])
      else [])"
    by (simp add: new_calls_def rtb_check_calls)
  show "nodeErrors (rtb_check c s) =
       (if nodeErrors s \<noteq> lastErrorState s \<and> rtb_condition c s
           \<and> nodeErrors s AND PRIMARY_NODE_RESET_RTB c = 0
        then nodeErrors s OR PRIMARY_NODE_RESET_RTB c else nodeErrors s)"
    by (rule rtb_check_nodeErrors)
next
  assume h: "\<forall>e \<in> set es. e AND PRIMARY_NODE_RESET_RTB c \<noteq> 0"
  obtain xs where xs: "calls (rtb_passes c es s) = calls s @ xs"
    using rtb_passes_calls by blast
  from rtb_passes_latched [OF h, of s] xs
  have "filter is_rtb_announcement xs = []" by simp
  with xs show "filter is_rtb_announcement (new_calls s (rtb_passes c es s)) = []"
    by (simp add: new_calls_def)
qed

theorem rtb_check_latched_announcement_witness:
  "nodeErrors first_loss \<noteq> lastErrorState first_loss
   \<and> rtb_condition example_flags first_loss
   \<and> nodeErrors first_loss AND PRIMARY_NODE_RESET_RTB example_flags = 0
   \<and> new_calls first_loss (rtb_check example_flags first_loss)
       = [Call_ActuatorsTransmitCommands 0 0 True,
          Call_MavLinkSendStatusText MAV_SEVERITY_EMERGENCY
            ''Enacting return-to-base protocol (reason 0x0008)'']
   \<and> nodeErrors (rtb_check example_flags first_loss) = 0x18
   \<and> 0x10 AND PRIMARY_NODE_RESET_RTB example_flags \<noteq> 0
   \<and> 0x18 AND PRIMARY_NODE_RESET_RTB example_flags \<noteq> 0
   \<and> filter is_rtb_announcement
         (new_calls after_first_loss (rtb_passes example_flags [0x10, 0x18] after_first_loss)) = []"
proof -
  have h1: "nodeErrors first_loss \<noteq> lastErrorState first_loss
            \<and> rtb_condition example_flags first_loss
            \<and> nodeErrors first_loss AND PRIMARY_NODE_RESET_RTB example_flags = 0"
    by (simp add: first_loss_eq) (simp add: ex_defs)
  have h3: "\<forall>e \<in> set [0x10, 0x18]. e AND PRIMARY_NODE_RESET_RTB example_flags \<noteq> 0"
    by (simp add: example_flags_def)
  note t1 = rtb_check_latched_announcement [of first_loss example_flags "[]"]
  note t2 = rtb_check_latched_announcement [of after_first_loss example_flags "[0x10, 0x18]"]
  have a: "new_calls first_loss (rtb_check example_flags first_loss)
       = [Call_ActuatorsTransmitCommands 0 0 True,
          Call_MavLinkSendStatusText MAV_SEVERITY_EMERGENCY
            ''Enacting return-to-base protocol (reason 0x0008)'']"
    using t1 [THEN conjunct1] h1
    by (simp add: first_loss_eq) (simp add: ex_defs rtb_announcement_def hexchar_def)
  have b: "nodeErrors (rtb_check example_flags first_loss) = 0x18"
    using t1 [THEN conjunct2, THEN conjunct1] h1
    by (simp add: first_loss_eq) (simp add: ex_defs)
  have c: "filter is_rtb_announcement
         (new_calls after_first_loss (rtb_passes example_flags [0x10, 0x18] after_first_loss)) = []"
    using t2 [THEN conjunct2, THEN conjunct2, THEN mp, OF h3] .
  from h1 h3 a b c show ?thesis by simp
qed

text \<open>The claim as stated fails. The rudder drops out, recovers and drops out again while
  the vehicle stays autonomous. The first loss is announced. After the recovery the
  condition no longer holds and the check does nothing. After the second loss the condition
  holds again and the error word has changed, a rising edge into the condition, but the
  check only commands the actuators: there is no second announcement.\<close>

theorem rtb_no_second_announcement:
  "rtb_condition example_flags first_loss
   \<and> new_calls first_loss after_first_loss
       = [Call_ActuatorsTransmitCommands 0 0 True,
          Call_MavLinkSendStatusText MAV_SEVERITY_EMERGENCY
            ''Enacting return-to-base protocol (reason 0x0008)'']
   \<and> \<not> rtb_condition example_flags recovery
   \<and> new_calls recovery after_recovery = []
   \<and> rtb_condition example_flags second_loss
   \<and> nodeErrors second_loss \<noteq> lastErrorState second_loss
   \<and> new_calls second_loss after_second_loss = [Call_ActuatorsTransmitCommands 0 0 True]"
proof -
  have a: "rtb_condition example_flags first_loss"
    by (simp add: first_loss_eq) (simp add: ex_defs)
  have b: "new_calls first_loss after_first_loss
       = [Call_ActuatorsTransmitCommands 0 0 True,
          Call_MavLinkSendStatusText MAV_SEVERITY_EMERGENCY
            ''Enacting return-to-base protocol (reason 0x0008)'']"
    by (simp add: after_first_loss_eq first_loss_eq)
       (simp add: ex_defs rtb_announcement_def hexchar_def)
  have c: "\<not> rtb_condition example_flags recovery"
    by (simp add: recovery_eq after_first_loss_eq) (simp add: ex_defs)
  have d: "new_calls recovery after_recovery = []"
    by (simp add: after_recovery_eq recovery_eq after_first_loss_eq) (simp add: ex_defs)
  have e: "rtb_condition example_flags second_loss
           \<and> nodeErrors second_loss \<noteq> lastErrorState second_loss"
    by (simp add: second_loss_eq after_recovery_eq recovery_eq after_first_loss_eq)
       (simp add: ex_defs)
  have f: "new_calls second_loss after_second_loss = [Call_ActuatorsTransmitCommands 0 0 True]"
    by (simp add: after_second_loss_def second_loss_eq after_recovery_eq recovery_eq
        after_first_loss_eq) (simp add: ex_defs)
  from a b c d e f show ?thesis by blast
qed

subsection \<open>\<^verbatim>\<open>SetAutoMode\<close>\<close>

lemma SetAutoMode_rejected:
  assumes "\<not> IS_AUTONOMOUS c s" and "nodeErrors s AND RTB_RESET_MASK c \<noteq> 0"
  shows "SetAutoMode c PRIMARY_MODE_AUTONOMOUS s = s"
  using assms by (simp add: SetAutoMode_def)

lemma SetAutoMode_leaves:
  assumes "IS_AUTONOMOUS c s"
  shows "\<not> IS_AUTONOMOUS c (SetAutoMode c newMode s)"
    and "nodeErrors (SetAutoMode c newMode s) AND PRIMARY_NODE_RESET_RTB c = 0"
  using assms by (auto simp add: SetAutoMode_def IS_AUTONOMOUS_def record_call_def Let_def and_not_self)

text \<open>Claim C2. A request for autonomous mode while the return-to-base subset is nonzero is
  said to leave the mode unchanged. From manual mode it does (\<open>SetAutoMode_rejected\<close>), and
  every switch out of autonomous mode clears the return-to-base flag (\<open>SetAutoMode_leaves\<close>).
  But the second branch of \<^verbatim>\<open>SetAutoMode\<close> does not look at the requested mode: asked for
  autonomous mode while already autonomous, with a rudder error of the mask set, the
  vehicle ends in manual mode.\<close>

theorem SetAutoMode_autonomous_while_autonomous:
  "GetAutoMode example_flags rtb_engaged = PRIMARY_MODE_AUTONOMOUS
   \<and> nodeErrors rtb_engaged AND RTB_RESET_MASK example_flags = 8
   \<and> GetAutoMode example_flags (SetAutoMode example_flags PRIMARY_MODE_AUTONOMOUS rtb_engaged)
       = PRIMARY_MODE_MANUAL"
  by (simp add: rtb_engaged_def SetAutoMode_def GetAutoMode_def ex_defs)

subsection \<open>Activity edges\<close>

text \<open>Claim C9. Over lines 293-317 the GPS flag is set on the active-to-inactive edge and
  cleared on the inactive-to-active edge, with no further condition, and keeps its value
  when the GPS activity equals the stored one. The rudder flag is set on the
  active-to-inactive edge, cleared on the inactive-to-active edge when the rudder is
  enabled, and otherwise the block changes nothing, neither the flag nor the stored
  activity. The GPS flag and the GPS disconnection flag, which the lines in between set
  and clear, are taken to be disjoint bits.\<close>

theorem active_loss_bits:
  assumes "PRIMARY_NODE_STATUS_GPS_INVALID c AND PRIMARY_NODE_RESET_GPS_DISCONNECTED c = 0"
  shows "(last_gpsActive s \<and> \<not> gps_active sa \<longrightarrow>
            nodeErrors (gps_checks c sa t s) AND PRIMARY_NODE_STATUS_GPS_INVALID c
              = PRIMARY_NODE_STATUS_GPS_INVALID c
            \<and> \<not> last_gpsActive (gps_checks c sa t s))
       \<and> (\<not> last_gpsActive s \<and> gps_active sa \<longrightarrow>
            nodeErrors (gps_checks c sa t s) AND PRIMARY_NODE_STATUS_GPS_INVALID c = 0
            \<and> last_gpsActive (gps_checks c sa t s))
       \<and> (last_gpsActive s = gps_active sa \<longrightarrow>
            nodeErrors (gps_checks c sa t s) AND PRIMARY_NODE_STATUS_GPS_INVALID c
              = nodeErrors s AND PRIMARY_NODE_STATUS_GPS_INVALID c
            \<and> last_gpsActive (gps_checks c sa t s) = last_gpsActive s)
       \<and> (last_rudderActive s \<and> \<not> rudder_active sa \<longrightarrow>
            nodeErrors (rudder_active_check c sa s)
              = nodeErrors s OR PRIMARY_NODE_RESET_RUDDER_ERRORS c
            \<and> \<not> last_rudderActive (rudder_active_check c sa s))
       \<and> (\<not> last_rudderActive s \<and> rudder_active sa \<and> rudder_enabled sa \<longrightarrow>
            nodeErrors (rudder_active_check c sa s)
              = nodeErrors s AND NOT (PRIMARY_NODE_RESET_RUDDER_ERRORS c)
            \<and> last_rudderActive (rudder_active_check c sa s))
       \<and> (\<not> last_rudderActive s \<and> rudder_active sa \<and> \<not> rudder_enabled sa \<longrightarrow>
            rudder_active_check c sa s = s)
       \<and> (last_rudderActive s = rudder_active sa \<longrightarrow> rudder_active_check c sa s = s)"
  using assms
  by (auto simp add: gps_checks_def gps_active_check_def gps_disconnected_check_def
        rudder_active_check_def or_and_self and_not_self and_or_disjoint and_not_disjoint)

theorem active_loss_bits_witness:
  "PRIMARY_NODE_STATUS_GPS_INVALID example_flags
     AND PRIMARY_NODE_RESET_GPS_DISCONNECTED example_flags = 0
   \<and> last_gpsActive autonomous_state \<and> \<not> gps_active gps_lost
   \<and> nodeErrors (gps_checks example_flags gps_lost 0 autonomous_state)
        AND PRIMARY_NODE_STATUS_GPS_INVALID example_flags
       = PRIMARY_NODE_STATUS_GPS_INVALID example_flags
   \<and> \<not> last_gpsActive (gps_checks example_flags gps_lost 0 autonomous_state) \<and> gps_active all_active
   \<and> nodeErrors (gps_checks example_flags all_active 0
          (gps_checks example_flags gps_lost 0 autonomous_state))
        AND PRIMARY_NODE_STATUS_GPS_INVALID example_flags = 0
   \<and> last_gpsActive autonomous_state = gps_active all_active
   \<and> nodeErrors (gps_checks example_flags all_active 0 autonomous_state)
        AND PRIMARY_NODE_STATUS_GPS_INVALID example_flags
       = nodeErrors autonomous_state AND PRIMARY_NODE_STATUS_GPS_INVALID example_flags
   \<and> last_rudderActive autonomous_state \<and> \<not> rudder_active rudder_lost
   \<and> nodeErrors first_loss
       = nodeErrors autonomous_state OR PRIMARY_NODE_RESET_RUDDER_ERRORS example_flags
   \<and> \<not> last_rudderActive first_loss \<and> rudder_active rudder_back_disabled
   \<and> \<not> rudder_enabled rudder_back_disabled
   \<and> rudder_active_check example_flags rudder_back_disabled first_loss = first_loss
   \<and> rudder_enabled all_active
   \<and> nodeErrors (rudder_active_check example_flags all_active first_loss)
       = nodeErrors first_loss AND NOT (PRIMARY_NODE_RESET_RUDDER_ERRORS example_flags)
   \<and> last_rudderActive autonomous_state = rudder_active all_active
   \<and> rudder_active_check example_flags all_active autonomous_state = autonomous_state"
proof -
  let ?c = example_flags
  let ?g = "gps_checks ?c gps_lost 0 autonomous_state"
  have h: "PRIMARY_NODE_STATUS_GPS_INVALID ?c AND PRIMARY_NODE_RESET_GPS_DISCONNECTED ?c = 0"
    by (simp add: example_flags_def)
  have e1: "last_gpsActive autonomous_state \<and> \<not> gps_active gps_lost"
    by (simp add: autonomous_state_def gps_lost_def)
  note t1 = active_loss_bits [OF h, of autonomous_state gps_lost 0, THEN conjunct1,
      rule_format, OF e1]
  have e2: "\<not> last_gpsActive ?g \<and> gps_active all_active"
    using t1 by (simp add: all_active_def)
  note t2 = active_loss_bits [OF h, of ?g all_active 0, THEN conjunct2, THEN conjunct1,
      rule_format, OF e2]
  have e3: "last_gpsActive autonomous_state = gps_active all_active"
    by (simp add: autonomous_state_def all_active_def)
  note t3 = active_loss_bits [OF h, of autonomous_state all_active 0, THEN conjunct2,
      THEN conjunct2, THEN conjunct1, rule_format, OF e3]
  have e4: "last_rudderActive autonomous_state \<and> \<not> rudder_active rudder_lost"
    by (simp add: autonomous_state_def rudder_lost_def)
  note t4 = active_loss_bits [OF h, of autonomous_state rudder_lost 0, THEN conjunct2,
      THEN conjunct2, THEN conjunct2, THEN conjunct1, rule_format, OF e4]
  have e5: "\<not> last_rudderActive first_loss \<and> rudder_active all_active \<and> rudder_enabled all_active"
    by (simp add: first_loss_eq all_active_def)
  note t5 = active_loss_bits [OF h, of first_loss all_active 0, THEN conjunct2,
      THEN conjunct2, THEN conjunct2, THEN conjunct2, THEN conjunct1, rule_format, OF e5]
  have e6: "\<not> last_rudderActive first_loss \<and> rudder_active rudder_back_disabled
            \<and> \<not> rudder_enabled rudder_back_disabled"
    by (simp add: first_loss_eq rudder_back_disabled_def)
  note t6 = active_loss_bits [OF h, of first_loss rudder_back_disabled 0, THEN conjunct2,
      THEN conjunct2, THEN conjunct2, THEN conjunct2, THEN conjunct2, THEN conjunct1,
      rule_format, OF e6]
  have e7: "last_rudderActive autonomous_state = rudder_active all_active"
    by (simp add: autonomous_state_def all_active_def)
  note t7 = active_loss_bits [OF h, of autonomous_state all_active 0, THEN conjunct2,
      THEN conjunct2, THEN conjunct2, THEN conjunct2, THEN conjunct2, THEN conjunct2,
      rule_format, OF e7]
  from h e1 t1 e2 t2 e3 t3 e4 t4 e5 t5 e6 t6 e7 t7 show ?thesis
    by (simp add: first_loss_def)
qed

subsection \<open>One transmit pass\<close>

lemma param_indices_append [simp]:
  "param_indices (xs @ ys) = param_indices xs @ param_indices ys"
  by (induction xs rule: param_indices.induct) simp_all

lemma mission_msgs_append [simp]:
  "mission_msgs (xs @ ys) = mission_msgs xs @ mission_msgs ys"
  by (induction xs rule: mission_msgs.induct) simp_all

lemmas sender_defs = MavLinkSendHeartbeat_def MavLinkSendStatus_def MavLinkSendRawGps_def
  MavLinkSendWindAirData_def MavLinkMissionProtocolSend_def MavLinkMissionItemSend_def
  MavLinkSendStatusAndErrors_def uart1EnqueueData_def

lemmas transmit_parameter_defs = transmit_current_parameter_def transmitParameter0_def
  transmitParameter1_def transmitParameter2_def transmitParameter3_def

lemma send_message_scheduler [simp]: "scheduler (send_message i s) = scheduler s"
  by (cases i) (simp_all add: sender_defs Let_def transmit_current_parameter_def
      transmitParameter0_def transmitParameter1_def transmitParameter2_def transmitParameter3_def
      split: option.splits)

lemma fold_send_scheduler [simp]: "scheduler (fold send_message ids s) = scheduler s"
  by (induction ids arbitrary: s) simp_all

lemma send_message_param_view:
  "i \<noteq> MAVLINK_MSG_ID_PARAM_VALUE \<Longrightarrow> param_view (send_message i s) = param_view s"
  by (cases i) (simp_all add: param_view_def sender_defs Let_def split: option.splits)

lemma fold_send_param_view:
  "MAVLINK_MSG_ID_PARAM_VALUE \<notin> set ids \<Longrightarrow> param_view (fold send_message ids s) = param_view s"
  by (induction ids arbitrary: s) (auto simp add: send_message_param_view)

lemma param_view_scheduler_update [simp]:
  "param_view (s\<lparr>scheduler := x\<rparr>) = param_view s"
  by (simp add: param_view_def)

lemma mission_view_scheduler_update [simp]:
  "mission_view (s\<lparr>scheduler := x\<rparr>) = mission_view s"
  by (simp add: mission_view_def)



lemma mission_step_param_view [simp]:
  "param_view (mission_protocol_step s) = param_view s"
  by (simp add: mission_protocol_step_def param_view_def add_transient_def
      split: MissionState.splits)


lemma mission_step_scheduler:
  "scheduler (mission_protocol_step s) =
     (scheduler s)\<lparr>transients := transients (scheduler s) @ mission_transients s\<rparr>"
  by (simp add: mission_protocol_step_def mission_transients_def add_transient_def
      AddTransientMessage_def split: MissionState.splits)

lemma param_step_scheduler:
  "scheduler (param_protocol_step s) =
     (scheduler s)\<lparr>transients := transients (scheduler s) @ param_transients s\<rparr>"
  by (simp add: param_protocol_step_def param_transients_def add_transient_def
      AddTransientMessage_def split: ParamState.splits)

lemma param_step_mission_state [simp]:
  "missionProtocolState (param_protocol_step s) = missionProtocolState s"
  by (simp add: param_protocol_step_def add_transient_def split: ParamState.splits)

lemma messages_of_pass:
  "fst (IncrementTimestep (scheduler (mission_protocol_step (param_protocol_step s)))) =
     due_ids (now (scheduler s) + 1) (registrations (scheduler s))
       @ transients (scheduler s) @ param_transients s @ mission_transients s"
  by (simp add: IncrementTimestep_def Let_def mission_step_scheduler param_step_scheduler
      mission_transients_def)

lemma scheduler_after_pass:
  "scheduler (MavLinkTransmit s) =
     \<lparr>registrations = advance_due (now (scheduler s) + 1) (registrations (scheduler s)),
      transients = [],
      now = now (scheduler s) + 1\<rparr>"
  by (simp add: MavLinkTransmit_def Let_def IncrementTimestep_def mission_step_scheduler
      param_step_scheduler)

lemma advance_due_ids [simp]: "map fst (advance_due t rs) = map fst rs"
  by (induction rs) (simp_all add: advance_due_def)

lemma param_quiet_after_pass:
  "param_quiet (scheduler s) \<Longrightarrow> param_quiet (scheduler (MavLinkTransmit s))"
  by (simp add: scheduler_after_pass param_quiet_def)


lemma due_ids_subset: "set (due_ids t rs) \<subseteq> set (map fst rs)"
  by (auto simp add: due_ids_def)

lemma mission_transients_no_param [simp]:
  "MAVLINK_MSG_ID_PARAM_VALUE \<notin> set (mission_transients s)"
  by (simp add: mission_transients_def split: MissionState.splits)

lemma param_transients_no_mission [simp]:
  "MAVLINK_MSG_ID_MISSION_COUNT \<notin> set (param_transients s)"
  "MAVLINK_MSG_ID_MISSION_ITEM \<notin> set (param_transients s)"
  by (simp_all add: param_transients_def)

lemma mission_transients_param_step [simp]:
  "mission_transients (param_protocol_step s) = mission_transients s"
  by (simp add: mission_transients_def)

lemma transmit_passes_add:
  "transmit_passes (m + n) s = transmit_passes n (transmit_passes m s)"
  by (induction m arbitrary: s) simp_all

lemma transmit_passes_Suc_end:
  "transmit_passes (Suc n) s = MavLinkTransmit (transmit_passes n s)"
  using transmit_passes_add [of n 1 s] by simp

lemma param_quiet_passes:
  "param_quiet (scheduler s) \<Longrightarrow> param_quiet (scheduler (transmit_passes n s))"
  by (induction n arbitrary: s) (simp_all add: param_quiet_after_pass)


lemma latch_param_view [simp]: "param_view (latch_groundstation msg s) = param_view s"
  by (simp add: latch_groundstation_def param_view_def)

lemma latch_scheduler [simp]: "scheduler (latch_groundstation msg s) = scheduler s"
  by (simp add: latch_groundstation_def)

subsection \<open>Passes of the parameter protocol\<close>

text \<open>A pass in which no \<^verbatim>\<open>PARAM_VALUE\<close> falls due, and one in which exactly the one requested by this pass does.\<close>

lemma pass_param_view_silent:
  assumes "param_quiet (scheduler s)" and "param_transients s = []"
  shows "param_view (MavLinkTransmit s) = param_view (param_protocol_step s)"
proof -
  have "MAVLINK_MSG_ID_PARAM_VALUE \<notin>
          set (fst (IncrementTimestep (scheduler (mission_protocol_step (param_protocol_step s)))))"
    using assms due_ids_subset [of "now (scheduler s) + 1" "registrations (scheduler s)"]
    by (auto simp add: messages_of_pass param_quiet_def)
  then show ?thesis
    by (simp add: MavLinkTransmit_def Let_def fold_send_param_view)
qed

lemma pass_param_view_sending:
  assumes "param_quiet (scheduler s)" and "param_transients s = [MAVLINK_MSG_ID_PARAM_VALUE]"
  shows "\<exists>s'. param_view s' = param_view (param_protocol_step s)
            \<and> param_view (MavLinkTransmit s) = param_view (send_message MAVLINK_MSG_ID_PARAM_VALUE s')"
proof -
  let ?s1 = "mission_protocol_step (param_protocol_step s)"
  let ?s2 = "?s1\<lparr>scheduler := snd (IncrementTimestep (scheduler ?s1))\<rparr>"
  let ?xs = "due_ids (now (scheduler s) + 1) (registrations (scheduler s)) @ transients (scheduler s)"
  have xs: "MAVLINK_MSG_ID_PARAM_VALUE \<notin> set ?xs"
    using assms due_ids_subset [of "now (scheduler s) + 1" "registrations (scheduler s)"]
    by (auto simp add: param_quiet_def)
  have msgs: "fst (IncrementTimestep (scheduler ?s1)) =
                ?xs @ MAVLINK_MSG_ID_PARAM_VALUE # mission_transients s"
    using assms by (simp add: messages_of_pass)
  let ?s' = "fold send_message ?xs ?s2"
  have a: "param_view ?s' = param_view (param_protocol_step s)"
    using xs by (simp add: fold_send_param_view)
  have "MavLinkTransmit s =
          fold send_message (mission_transients s) (send_message MAVLINK_MSG_ID_PARAM_VALUE ?s')"
    by (simp add: MavLinkTransmit_def Let_def msgs)
  then have b: "param_view (MavLinkTransmit s) = param_view (send_message MAVLINK_MSG_ID_PARAM_VALUE ?s')"
    by (simp add: fold_send_param_view)
  from a b show ?thesis by blast
qed

lemma param_count_less: "(ucast (c :: 8 word) < parameterCount) = (c < 4)"
  by (simp add: parameterCount_def word_less_nat_alt ucast_8_16_unat)

lemma small_param_cases: "(c :: 8 word) < 4 \<Longrightarrow> c = 0 \<or> c = 1 \<or> c = 2 \<or> c = 3"
proof -
  assume "c < 4"
  then have "unat c < 4" by (simp add: word_less_nat_alt)
  then have "unat c = 0 \<or> unat c = 1 \<or> unat c = 2 \<or> unat c = 3" by arith
  then show ?thesis by (auto simp add: word_unat_eq_iff)
qed

lemma send_param_value_stream:
  assumes "param_view s = (c, PARAM_STATE_STREAM_TRANSMIT_WAITING, d, ix)" and "c < 4"
  shows "param_view (send_message MAVLINK_MSG_ID_PARAM_VALUE s)
           = (c + 1, PARAM_STATE_STREAM_TRANSMIT_DELAY, d, ix @ [ucast c])"
  using assms small_param_cases [of c]
  by (auto simp add: param_view_def transmit_current_parameter_def transmitParameter0_def
      transmitParameter1_def transmitParameter2_def transmitParameter3_def
      uart1EnqueueData_def Let_def)

lemma send_param_value_single:
  assumes "param_view s = (c, PARAM_STATE_SINGLETON_TRANSMIT_WAITING, d, ix)"
  shows "param_view (send_message MAVLINK_MSG_ID_PARAM_VALUE s)
           = (c, PARAM_STATE_INACTIVE, d, ix @ (if c < 4 then [ucast c] else []))"
proof (cases "c < 4")
  case True
  then show ?thesis
    using assms small_param_cases [of c]
    by (auto simp add: param_view_def transmit_parameter_defs uart1EnqueueData_def Let_def)
next
  case False
  then have "c \<noteq> 0" "c \<noteq> 1" "c \<noteq> 2" "c \<noteq> 3" by auto
  with False show ?thesis
    using assms
    by (simp add: param_view_def transmit_current_parameter_def Let_def)
qed

lemma param_step_view:
  "param_view (param_protocol_step s) =
     (case parameterProtocolState s of
        PARAM_STATE_SINGLETON_TRANSMIT_START \<Rightarrow>
          (currentParameter s, PARAM_STATE_SINGLETON_TRANSMIT_WAITING, delayCountdown s,
           param_indices (uart1 s))
      | PARAM_STATE_STREAM_TRANSMIT_START \<Rightarrow>
          (0, PARAM_STATE_STREAM_TRANSMIT_PARAM, delayCountdown s, param_indices (uart1 s))
      | PARAM_STATE_STREAM_TRANSMIT_PARAM \<Rightarrow>
          (currentParameter s,
           if currentParameter s < 4 then PARAM_STATE_STREAM_TRANSMIT_WAITING
           else PARAM_STATE_INACTIVE,
           delayCountdown s, param_indices (uart1 s))
      | PARAM_STATE_STREAM_TRANSMIT_DELAY \<Rightarrow>
          (currentParameter s,
           if delayCountdown s = 9 then PARAM_STATE_STREAM_TRANSMIT_PARAM
           else PARAM_STATE_STREAM_TRANSMIT_DELAY,
           if delayCountdown s = 9 then 0 else delayCountdown s + 1,
           param_indices (uart1 s))
      | _ \<Rightarrow> param_view s)"
  by (simp add: param_protocol_step_def param_view_def add_transient_def param_count_less
      split: ParamState.splits)

lemma view_fields:
  "param_view s = (c, st, d, ix) \<Longrightarrow>
     currentParameter s = c \<and> parameterProtocolState s = st \<and> delayCountdown s = d
     \<and> param_indices (uart1 s) = ix"
  by (simp add: param_view_def)

lemma pass_from_start:
  assumes "param_quiet (scheduler s)"
    and "param_view s = (c, PARAM_STATE_STREAM_TRANSMIT_START, d, ix)"
  shows "param_view (MavLinkTransmit s) = (0, PARAM_STATE_STREAM_TRANSMIT_PARAM, d, ix)"
  using assms view_fields [OF assms(2)]
  by (simp add: pass_param_view_silent param_transients_def param_step_view)

lemma pass_from_param_send:
  assumes "param_quiet (scheduler s)"
    and "param_view s = (c, PARAM_STATE_STREAM_TRANSMIT_PARAM, d, ix)" and "c < 4"
  shows "param_view (MavLinkTransmit s)
           = (c + 1, PARAM_STATE_STREAM_TRANSMIT_DELAY, d, ix @ [ucast c])"
proof -
  note f = view_fields [OF assms(2)]
  have "param_transients s = [MAVLINK_MSG_ID_PARAM_VALUE]"
    using f assms(3) by (simp add: param_transients_def param_count_less)
  from pass_param_view_sending [OF assms(1) this]
  obtain s' where s': "param_view s' = param_view (param_protocol_step s)"
    and t: "param_view (MavLinkTransmit s)
              = param_view (send_message MAVLINK_MSG_ID_PARAM_VALUE s')"
    by blast
  have "param_view s' = (c, PARAM_STATE_STREAM_TRANSMIT_WAITING, d, ix)"
    using s' f assms(3) by (simp add: param_step_view)
  from send_param_value_stream [OF this assms(3)] t show ?thesis by simp
qed

lemma pass_from_param_done:
  assumes "param_quiet (scheduler s)"
    and "param_view s = (c, PARAM_STATE_STREAM_TRANSMIT_PARAM, d, ix)" and "\<not> c < 4"
  shows "param_view (MavLinkTransmit s) = (c, PARAM_STATE_INACTIVE, d, ix)"
  using assms view_fields [OF assms(2)]
  by (simp add: pass_param_view_silent param_transients_def param_step_view param_count_less)

lemma pass_from_delay:
  assumes "param_quiet (scheduler s)"
    and "param_view s = (c, PARAM_STATE_STREAM_TRANSMIT_DELAY, d, ix)"
  shows "param_view (MavLinkTransmit s) =
           (c, if d = 9 then PARAM_STATE_STREAM_TRANSMIT_PARAM
               else PARAM_STATE_STREAM_TRANSMIT_DELAY,
            if d = 9 then 0 else d + 1, ix)"
  using assms view_fields [OF assms(2)]
  by (simp add: pass_param_view_silent param_transients_def param_step_view)

lemma pass_from_inactive:
  assumes "param_quiet (scheduler s)"
    and "param_view s = (c, PARAM_STATE_INACTIVE, d, ix)"
  shows "param_view (MavLinkTransmit s) = (c, PARAM_STATE_INACTIVE, d, ix)"
  using assms view_fields [OF assms(2)]
  by (simp add: pass_param_view_silent param_transients_def param_step_view)

lemma pass_from_single_start:
  assumes "param_quiet (scheduler s)"
    and "parameterProtocolState s = PARAM_STATE_SINGLETON_TRANSMIT_START"
  shows "param_view (MavLinkTransmit s) =
           (currentParameter s, PARAM_STATE_INACTIVE, delayCountdown s,
            param_indices (uart1 s) @ (if currentParameter s < 4 then [ucast (currentParameter s)] else []))"
proof -
  have "param_transients s = [MAVLINK_MSG_ID_PARAM_VALUE]"
    using assms(2) by (simp add: param_transients_def)
  from pass_param_view_sending [OF assms(1) this]
  obtain s' where s': "param_view s' = param_view (param_protocol_step s)"
    and t: "param_view (MavLinkTransmit s)
              = param_view (send_message MAVLINK_MSG_ID_PARAM_VALUE s')"
    by blast
  have "param_view s' = (currentParameter s, PARAM_STATE_SINGLETON_TRANSMIT_WAITING,
                         delayCountdown s, param_indices (uart1 s))"
    using s' assms(2) by (simp add: param_step_view)
  from send_param_value_single [OF this] t show ?thesis by simp
qed

lemma passes_in_delay:
  assumes "param_quiet (scheduler s)"
    and "param_view s = (c, PARAM_STATE_STREAM_TRANSMIT_DELAY, 0, ix)" and "j \<le> 9"
  shows "param_view (transmit_passes j s) = (c, PARAM_STATE_STREAM_TRANSMIT_DELAY, of_nat j, ix)"
  using assms(3)
proof (induction j)
  case 0
  then show ?case using assms(2) by simp
next
  case (Suc j)
  then have v: "param_view (transmit_passes j s)
                  = (c, PARAM_STATE_STREAM_TRANSMIT_DELAY, of_nat j, ix)"
    by simp
  have ne: "(of_nat j :: 8 word) \<noteq> 9"
    using Suc.prems by (simp add: word_unat_eq_iff unat_of_nat)
  show ?case
    using pass_from_delay [OF param_quiet_passes [OF assms(1)] v] ne
    by (simp add: transmit_passes_Suc_end del: transmit_passes.simps)
qed

lemma passes_through_delay:
  assumes "param_quiet (scheduler s)"
    and "param_view s = (c, PARAM_STATE_STREAM_TRANSMIT_DELAY, 0, ix)"
  shows "param_view (transmit_passes 10 s) = (c, PARAM_STATE_STREAM_TRANSMIT_PARAM, 0, ix)"
proof -
  have v: "param_view (transmit_passes 9 s) = (c, PARAM_STATE_STREAM_TRANSMIT_DELAY, 9, ix)"
    using passes_in_delay [OF assms, of 9] by simp
  have "transmit_passes 10 s = MavLinkTransmit (transmit_passes 9 s)"
    using transmit_passes_Suc_end [of 9 s] by simp
  then show ?thesis
    using pass_from_delay [OF param_quiet_passes [OF assms(1)] v] by simp
qed

lemma stream_cycle_delay:
  assumes "param_quiet (scheduler s)"
    and "param_view s = (c, PARAM_STATE_STREAM_TRANSMIT_PARAM, 0, ix)" and "c < 4" and "j \<le> 9"
  shows "param_view (transmit_passes (Suc j) s)
           = (c + 1, PARAM_STATE_STREAM_TRANSMIT_DELAY, of_nat j, ix @ [ucast c])"
proof -
  have "param_view (MavLinkTransmit s)
          = (c + 1, PARAM_STATE_STREAM_TRANSMIT_DELAY, 0, ix @ [ucast c])"
    by (rule pass_from_param_send [OF assms(1,2,3)])
  from passes_in_delay [OF param_quiet_after_pass [OF assms(1)] this assms(4)]
  show ?thesis by simp
qed

lemma stream_cycle:
  assumes "param_quiet (scheduler s)"
    and "param_view s = (c, PARAM_STATE_STREAM_TRANSMIT_PARAM, 0, ix)" and "c < 4"
  shows "param_view (transmit_passes 11 s)
           = (c + 1, PARAM_STATE_STREAM_TRANSMIT_PARAM, 0, ix @ [ucast c])"
proof -
  have "param_view (MavLinkTransmit s)
          = (c + 1, PARAM_STATE_STREAM_TRANSMIT_DELAY, 0, ix @ [ucast c])"
    by (rule pass_from_param_send [OF assms(1,2,3)])
  from passes_through_delay [OF param_quiet_after_pass [OF assms(1)] this]
  have "param_view (transmit_passes 10 (MavLinkTransmit s))
          = (c + 1, PARAM_STATE_STREAM_TRANSMIT_PARAM, 0, ix @ [ucast c])" .
  moreover have "transmit_passes 11 s = transmit_passes 10 (MavLinkTransmit s)"
    using transmit_passes_add [of 1 10 s] by simp
  ultimately show ?thesis by simp
qed

lemma of_nat_less_4: "k < 4 \<Longrightarrow> (of_nat k :: 8 word) < 4"
  by (simp add: word_less_nat_alt unat_of_nat)

lemma ucast_of_nat_small: "k < 4 \<Longrightarrow> (ucast (of_nat k :: 8 word) :: 16 word) = of_nat k"
  by (simp add: word_unat_eq_iff ucast_8_16_unat unat_of_nat)

lemma stream_after_cycles:
  assumes "param_quiet (scheduler s)"
    and "param_view s = (c, PARAM_STATE_STREAM_TRANSMIT_START, 0, ix)" and "k \<le> 4"
  shows "param_view (transmit_passes (1 + 11 * k) s)
           = (of_nat k, PARAM_STATE_STREAM_TRANSMIT_PARAM, 0, ix @ map of_nat [0..<k])"
  using assms(3)
proof (induction k)
  case 0
  show ?case using pass_from_start [OF assms(1,2)] by simp
next
  case (Suc k)
  let ?s = "transmit_passes (1 + 11 * k) s"
  have v: "param_view ?s
             = (of_nat k, PARAM_STATE_STREAM_TRANSMIT_PARAM, 0, ix @ map of_nat [0..<k])"
    using Suc by simp
  have k: "k < 4" using Suc.prems by simp
  have "transmit_passes (1 + 11 * Suc k) s = transmit_passes 11 ?s"
    using transmit_passes_add [of "1 + 11 * k" 11 s] by (simp add: add.commute)
  then show ?case
    using stream_cycle [OF param_quiet_passes [OF assms(1)] v of_nat_less_4 [OF k]] k
    by (simp add: ucast_of_nat_small del: transmit_passes.simps)
qed

lemma stream_between_sends:
  assumes "param_quiet (scheduler s)"
    and "param_view s = (c, PARAM_STATE_STREAM_TRANSMIT_START, 0, ix)" and "k < 4" and "j \<le> 10"
  shows "param_indices (uart1 (transmit_passes (2 + 11 * k + j) s)) = ix @ map of_nat [0..<Suc k]"
    and "parameterProtocolState (transmit_passes (2 + 11 * k + j) s) \<noteq> PARAM_STATE_INACTIVE"
proof -
  let ?s = "transmit_passes (1 + 11 * k) s"
  have q: "param_quiet (scheduler ?s)" by (rule param_quiet_passes [OF assms(1)])
  have v: "param_view ?s
             = (of_nat k, PARAM_STATE_STREAM_TRANSMIT_PARAM, 0, ix @ map of_nat [0..<k])"
    using stream_after_cycles [OF assms(1,2), of k] assms(3) by simp
  have split: "transmit_passes (2 + 11 * k + j) s = transmit_passes (Suc j) ?s"
    using transmit_passes_add [of "1 + 11 * k" "Suc j" s] by (simp add: add.commute)
  have "param_view (transmit_passes (Suc j) ?s) =
          (of_nat k + 1,
           if j = 10 then PARAM_STATE_STREAM_TRANSMIT_PARAM else PARAM_STATE_STREAM_TRANSMIT_DELAY,
           if j = 10 then 0 else of_nat j,
           ix @ map of_nat [0..<Suc k])"
  proof (cases "j = 10")
    case True
    then show ?thesis
      using stream_cycle [OF q v of_nat_less_4 [OF assms(3)]] assms(3)
      by (simp add: ucast_of_nat_small del: transmit_passes.simps)
  next
    case False
    with assms(4) have "j \<le> 9" by simp
    from stream_cycle_delay [OF q v of_nat_less_4 [OF assms(3)] this] False assms(3)
    show ?thesis by (simp add: ucast_of_nat_small del: transmit_passes.simps)
  qed
  then have "param_indices (uart1 (transmit_passes (Suc j) ?s)) = ix @ map of_nat [0..<Suc k]"
    and "parameterProtocolState (transmit_passes (Suc j) ?s) \<noteq> PARAM_STATE_INACTIVE"
    by (auto dest!: view_fields split: if_splits)
  then show "param_indices (uart1 (transmit_passes (2 + 11 * k + j) s)) = ix @ map of_nat [0..<Suc k]"
    and "parameterProtocolState (transmit_passes (2 + 11 * k + j) s) \<noteq> PARAM_STATE_INACTIVE"
    unfolding split by blast+
qed

lemma stream_finished:
  assumes "param_quiet (scheduler s)"
    and "param_view s = (c, PARAM_STATE_STREAM_TRANSMIT_START, 0, ix)"
  shows "param_view (transmit_passes (46 + n) s) = (4, PARAM_STATE_INACTIVE, 0, ix @ [0, 1, 2, 3])"
proof (induction n)
  case 0
  let ?s = "transmit_passes 45 s"
  have v: "param_view ?s = (4, PARAM_STATE_STREAM_TRANSMIT_PARAM, 0, ix @ [0, 1, 2, 3])"
    using stream_after_cycles [OF assms, of 4] by (simp add: upt_rec)
  have "transmit_passes 46 s = MavLinkTransmit ?s"
    using transmit_passes_Suc_end [of 45 s] by simp
  then show ?case
    using pass_from_param_done [OF param_quiet_passes [OF assms(1)] v] by simp
next
  case (Suc n)
  have "transmit_passes (46 + Suc n) s = MavLinkTransmit (transmit_passes (46 + n) s)"
    using transmit_passes_Suc_end [of "46 + n" s] by simp
  then show ?case
    using pass_from_inactive [OF param_quiet_passes [OF assms(1)] Suc] by simp
qed

lemma request_list_inactive:
  assumes "msg_payload msg = PARAM_REQUEST_LIST_in"
    and "parameterProtocolState s = PARAM_STATE_INACTIVE"
  shows "handle_message msg s =
           (latch_groundstation msg s)
             \<lparr>parameterProtocolState := PARAM_STATE_STREAM_TRANSMIT_START\<rparr>"
  using assms by (simp add: handle_message_def latch_groundstation_def)

lemma request_list_busy:
  assumes "msg_payload msg = PARAM_REQUEST_LIST_in"
    and "parameterProtocolState s \<noteq> PARAM_STATE_INACTIVE"
  shows "handle_message msg s = latch_groundstation msg s"
  using assms by (simp add: handle_message_def latch_groundstation_def)

subsection \<open>Passes of the mission protocol\<close>















subsection \<open>Example states\<close>

lemma booted_quiet: "param_quiet (scheduler (booted ml))" "mission_quiet (scheduler (booted ml))"
  by (simp_all add: booted_def MavLinkInit_def initial_state_def AddMessage_def
      param_quiet_def mission_quiet_def)

lemma booted_fields:
  "parameterProtocolState (booted ml) = PARAM_STATE_INACTIVE"
  "missionProtocolState (booted ml) = MISSION_STATE_INACTIVE"
  "delayCountdown (booted ml) = 0"
  "currentMission (booted ml) = 0"
  "currentParameter (booted ml) = 0"
  "uart1 (booted ml) = []"
  "mList (booted ml) = ml"
  "systemStatus_status (booted ml) = 0"
  "groundStationSystemId (booted ml) = 0"
  "groundStationComponentId (booted ml) = 0"
  by (simp_all add: booted_def MavLinkInit_def initial_state_def)

lemmas link_defs = handle_message_def latch_groundstation_def gcs_frame_def
  mission_ack_def mission_request_def uart1EnqueueData_def Let_def
  autonomous_link_def booted_fields one_waypoint_store_def full_store_def empty_store_def
  ClearMissionList_def AppendMission_def GetMissionCount_def SetCurrentMission_def
  waypoint_def mission_of_item_def

lemmas receive_defs = handle_message_def latch_groundstation_def gcs_frame_def
  initial_state_def empty_store_def uart1EnqueueData_def Let_def
  transmitParameter0_def transmitParameter1_def transmitParameter2_def transmitParameter3_def
  status_bit_def set_status_bit_def parameterCount_def

lemmas transmit_defs = MavLinkTransmit_def param_protocol_step_def mission_protocol_step_def
  add_transient_def AddTransientMessage_def IncrementTimestep_def due_ids_def advance_due_def
  transmit_current_parameter_def

subsection \<open>Mission upload\<close>

text \<open>Claim C3. A mission count received while \<^verbatim>\<open>systemStatus.status\<close> has bit 0 set
  (autonomous) is answered with a \<^verbatim>\<open>MAV_MISSION_ERROR\<close> acknowledgment to the sender, whatever
  the count; nothing else changes but the latch of the ground station, so the mission list
  and the recorded size are untouched. Otherwise the list is cleared and the count
  recorded.\<close>

theorem mission_count_while_autonomous:
  assumes "msg_payload msg = MISSION_COUNT_in n"
  shows "(systemStatus_status s AND 1 > 0 \<longrightarrow>
            handle_message msg s =
              (latch_groundstation msg s)
                \<lparr>uart1 := uart1 s @ [MISSION_ACK_out (msg_sysid msg) (msg_compid msg) MAV_MISSION_ERROR]\<rparr>
            \<and> mList (handle_message msg s) = mList s
            \<and> mavlinkNewMissionListSize (handle_message msg s) = mavlinkNewMissionListSize s)
       \<and> (\<not> systemStatus_status s AND 1 > 0 \<longrightarrow>
            mList (handle_message msg s) = ClearMissionList (mList s)
            \<and> mavlinkNewMissionListSize (handle_message msg s) = n)"
  using assms
  by (simp add: handle_message_def latch_groundstation_def mission_ack_def mission_request_def
      uart1EnqueueData_def Let_def)

theorem mission_count_while_autonomous_witness:
  "msg_payload (gcs_frame (MISSION_COUNT_in 3)) = MISSION_COUNT_in 3
   \<and> systemStatus_status autonomous_link AND 1 > 0
   \<and> uart1 (handle_message (gcs_frame (MISSION_COUNT_in 3)) autonomous_link)
       = [MISSION_ACK_out 255 190 MAV_MISSION_ERROR]
   \<and> mList (handle_message (gcs_frame (MISSION_COUNT_in 3)) autonomous_link) = one_waypoint_store
   \<and> \<not> systemStatus_status (booted one_waypoint_store) AND 1 > 0
   \<and> mList (handle_message (gcs_frame (MISSION_COUNT_in 3)) (booted one_waypoint_store))
       = ClearMissionList one_waypoint_store
   \<and> mavlinkNewMissionListSize
        (handle_message (gcs_frame (MISSION_COUNT_in 3)) (booted one_waypoint_store)) = 3"
proof -
  let ?msg = "gcs_frame (MISSION_COUNT_in 3)"
  have h: "msg_payload ?msg = MISSION_COUNT_in 3" by (simp add: gcs_frame_def)
  have a: "systemStatus_status autonomous_link AND 1 > 0"
    by (simp add: autonomous_link_def)
  have m: "\<not> systemStatus_status (booted one_waypoint_store) AND 1 > 0"
    by (simp add: booted_fields)
  note t1 = mission_count_while_autonomous [OF h, of autonomous_link, THEN conjunct1, rule_format, OF a]
  note t2 = mission_count_while_autonomous [OF h, of "booted one_waypoint_store", THEN conjunct2,
      rule_format, OF m]
  have u: "uart1 (handle_message ?msg autonomous_link) = [MISSION_ACK_out 255 190 MAV_MISSION_ERROR]"
    using t1 [THEN conjunct1] by (simp add: autonomous_link_def booted_fields gcs_frame_def)
  have l: "mList (handle_message ?msg autonomous_link) = one_waypoint_store"
    using t1 [THEN conjunct2, THEN conjunct1] by (simp add: autonomous_link_def booted_fields)
  have c: "mList (handle_message ?msg (booted one_waypoint_store)) = ClearMissionList one_waypoint_store"
    using t2 by (simp add: booted_fields)
  have n: "mavlinkNewMissionListSize (handle_message ?msg (booted one_waypoint_store)) = 3"
    using t2 by simp
  from h a m u l c n show ?thesis by blast
qed

text \<open>Claim C4. A mission item whose sequence number differs from the mission count is
  answered with \<^verbatim>\<open>MAV_MISSION_INVALID_SEQUENCE\<close> and the list is unchanged; an item in sequence
  that meets a full list is answered with \<^verbatim>\<open>MAV_MISSION_NO_SPACE\<close>, the list unchanged; and
  the list changes only when the item is in sequence and there is room, by appending the
  item. The source keeps no record of an upload being active: this holds in every
  state.\<close>

theorem mission_item_sequence_check:
  assumes "msg_payload msg = MISSION_ITEM_in it"
  shows "(ucast (GetMissionCount (mList s)) \<noteq> item_seq it \<longrightarrow>
            handle_message msg s =
              (latch_groundstation msg s)
                \<lparr>uart1 := uart1 s @ [MISSION_ACK_out (msg_sysid msg) (msg_compid msg)
                                      MAV_MISSION_INVALID_SEQUENCE]\<rparr>
            \<and> mList (handle_message msg s) = mList s)
       \<and> (ucast (GetMissionCount (mList s)) = item_seq it
            \<and> \<not> length (missions (mList s)) < maxSize (mList s) \<longrightarrow>
            handle_message msg s =
              (latch_groundstation msg s)
                \<lparr>uart1 := uart1 s @ [MISSION_ACK_out (msg_sysid msg) (msg_compid msg)
                                      MAV_MISSION_NO_SPACE]\<rparr>
            \<and> mList (handle_message msg s) = mList s)
       \<and> (mList (handle_message msg s) \<noteq> mList s \<longrightarrow>
            ucast (GetMissionCount (mList s)) = item_seq it
            \<and> length (missions (mList s)) < maxSize (mList s)
            \<and> missions (mList (handle_message msg s)) = missions (mList s) @ [mission_of_item it])"
  using assms
  by (auto simp add: handle_message_def latch_groundstation_def mission_ack_def mission_request_def
      uart1EnqueueData_def Let_def AppendMission_def SetCurrentMission_def)

theorem mission_item_sequence_check_witness:
  "msg_payload (gcs_frame (MISSION_ITEM_in (waypoint 2 0))) = MISSION_ITEM_in (waypoint 2 0)
   \<and> ucast (GetMissionCount (mList (booted one_waypoint_store))) \<noteq> item_seq (waypoint 2 0)
   \<and> uart1 (handle_message (gcs_frame (MISSION_ITEM_in (waypoint 2 0))) (booted one_waypoint_store))
       = [MISSION_ACK_out 255 190 MAV_MISSION_INVALID_SEQUENCE]
   \<and> mList (handle_message (gcs_frame (MISSION_ITEM_in (waypoint 2 0))) (booted one_waypoint_store))
       = one_waypoint_store
   \<and> ucast (GetMissionCount (mList (booted full_store))) = item_seq (waypoint 1 0)
   \<and> \<not> length (missions (mList (booted full_store))) < maxSize (mList (booted full_store))
   \<and> uart1 (handle_message (gcs_frame (MISSION_ITEM_in (waypoint 1 0))) (booted full_store))
       = [MISSION_ACK_out 255 190 MAV_MISSION_NO_SPACE]
   \<and> mList (handle_message (gcs_frame (MISSION_ITEM_in (waypoint 1 0))) (booted one_waypoint_store))
       \<noteq> mList (booted one_waypoint_store)
   \<and> ucast (GetMissionCount (mList (booted one_waypoint_store))) = item_seq (waypoint 1 0)"
proof -
  let ?bad = "gcs_frame (MISSION_ITEM_in (waypoint 2 0))"
  let ?next = "gcs_frame (MISSION_ITEM_in (waypoint 1 0))"
  let ?s = "booted one_waypoint_store"
  let ?f = "booted full_store"
  have hb: "msg_payload ?bad = MISSION_ITEM_in (waypoint 2 0)" by (simp add: gcs_frame_def)
  have hn: "msg_payload ?next = MISSION_ITEM_in (waypoint 1 0)" by (simp add: gcs_frame_def)
  have mismatch: "ucast (GetMissionCount (mList ?s)) \<noteq> item_seq (waypoint 2 0)"
    by (simp add: link_defs)
  have full: "ucast (GetMissionCount (mList ?f)) = item_seq (waypoint 1 0)
              \<and> \<not> length (missions (mList ?f)) < maxSize (mList ?f)"
    by (simp add: link_defs)
  have grows: "mList (handle_message ?next ?s) \<noteq> mList ?s"
    by (simp add: link_defs)
  note t1 = mission_item_sequence_check [OF hb, of ?s, THEN conjunct1, rule_format, OF mismatch]
  note t2 = mission_item_sequence_check [OF hn, of ?f, THEN conjunct2, THEN conjunct1,
      rule_format, OF full]
  note t3 = mission_item_sequence_check [OF hn, of ?s, THEN conjunct2, THEN conjunct2,
      rule_format, OF grows]
  have a: "uart1 (handle_message ?bad ?s) = [MISSION_ACK_out 255 190 MAV_MISSION_INVALID_SEQUENCE]"
    using t1 [THEN conjunct1] by (simp add: booted_fields gcs_frame_def)
  have b: "mList (handle_message ?bad ?s) = one_waypoint_store"
    using t1 [THEN conjunct2] by (simp add: booted_fields)
  have c: "uart1 (handle_message ?next ?f) = [MISSION_ACK_out 255 190 MAV_MISSION_NO_SPACE]"
    using t2 [THEN conjunct1] by (simp add: booted_fields gcs_frame_def)
  from hb mismatch a b full c grows t3 show ?thesis by blast
qed

lemma mission_item_in_sequence_reply:
  assumes "msg_payload msg = MISSION_ITEM_in it"
    and "ucast (GetMissionCount (mList s)) = item_seq it"
    and "length (missions (mList s)) < maxSize (mList s)"
  shows "uart1 (handle_message msg s) = uart1 s @
           [if int (length (missions (mList s))) = uint (mavlinkNewMissionListSize s)
            then MISSION_ACK_out (msg_sysid msg) (msg_compid msg) MAV_MISSION_ACCEPTED
            else MISSION_REQUEST_out (msg_sysid msg) (msg_compid msg) (item_seq it + 1)]"
  using assms
  by (auto simp add: handle_message_def latch_groundstation_def mission_ack_def mission_request_def
      uart1EnqueueData_def Let_def AppendMission_def SetCurrentMission_def)


subsection \<open>Parameter protocol\<close>

text \<open>Claim C6. A parameter list request in the inactive state makes the transmit passes send
  the parameters 0, 1, 2, 3 in this order: nothing in the first pass, parameter \<open>k\<close> in
  pass \<open>2 + 11 k\<close>, and nothing in the ten passes that follow it, so that exactly ten
  passes lie between two consecutive sends; the protocol is inactive again after pass 46
  and not before. A request in any other state changes nothing but the latch of the ground
  station. The scheduler is the one modelled above, holding no \<^verbatim>\<open>PARAM_VALUE\<close> of its own, and
  the delay counter starts at 0 as its initializer sets it.\<close>

theorem param_stream_schedule:
  assumes "msg_payload msg = PARAM_REQUEST_LIST_in"
    and "param_quiet (scheduler s)" and "delayCountdown s = 0"
  shows "(parameterProtocolState s \<noteq> PARAM_STATE_INACTIVE \<longrightarrow>
            handle_message msg s = latch_groundstation msg s)
       \<and> (parameterProtocolState s = PARAM_STATE_INACTIVE \<longrightarrow>
            (\<forall>n<2. param_indices (uart1 (transmit_passes n (handle_message msg s)))
                     = param_indices (uart1 s))
          \<and> (\<forall>k j. k < 4 \<and> j \<le> 10 \<longrightarrow>
                 param_indices (uart1 (transmit_passes (2 + 11 * k + j) (handle_message msg s)))
                   = param_indices (uart1 s) @ map of_nat [0..<Suc k])
          \<and> (\<forall>n\<ge>46. param_indices (uart1 (transmit_passes n (handle_message msg s)))
                      = param_indices (uart1 s) @ [0, 1, 2, 3])
          \<and> (\<forall>n. (parameterProtocolState (transmit_passes n (handle_message msg s))
                     = PARAM_STATE_INACTIVE) = (46 \<le> n)))"
proof (intro conjI impI)
  assume "parameterProtocolState s \<noteq> PARAM_STATE_INACTIVE"
  then show "handle_message msg s = latch_groundstation msg s"
    by (rule request_list_busy [OF assms(1)])
next
  assume inactive: "parameterProtocolState s = PARAM_STATE_INACTIVE"
  let ?s1 = "handle_message msg s"
  let ?ix = "param_indices (uart1 s)"
  have eq: "?s1 = (latch_groundstation msg s)
                    \<lparr>parameterProtocolState := PARAM_STATE_STREAM_TRANSMIT_START\<rparr>"
    by (rule request_list_inactive [OF assms(1) inactive])
  have q: "param_quiet (scheduler ?s1)"
    using assms(2) by (simp add: eq)
  have v: "param_view ?s1 = (currentParameter ?s1, PARAM_STATE_STREAM_TRANSMIT_START, 0, ?ix)"
    using assms(3) by (simp add: eq param_view_def latch_groundstation_def)
  have one: "param_view (transmit_passes 1 ?s1)
               = (0, PARAM_STATE_STREAM_TRANSMIT_PARAM, 0, ?ix)"
    using pass_from_start [OF q v] by simp
  show "\<forall>n<2. param_indices (uart1 (transmit_passes n ?s1)) = ?ix"
  proof (intro allI impI)
    fix n :: nat
    assume "n < 2"
    then have "n = 0 \<or> n = 1" by arith
    then show "param_indices (uart1 (transmit_passes n ?s1)) = ?ix"
      using view_fields [OF v] view_fields [OF one] by auto
  qed
  show "\<forall>k j. k < 4 \<and> j \<le> 10 \<longrightarrow>
          param_indices (uart1 (transmit_passes (2 + 11 * k + j) ?s1))
            = ?ix @ map of_nat [0..<Suc k]"
    using stream_between_sends(1) [OF q v] by blast
  show "\<forall>n\<ge>46. param_indices (uart1 (transmit_passes n ?s1)) = ?ix @ [0, 1, 2, 3]"
  proof (intro allI impI)
    fix n :: nat
    assume "46 \<le> n"
    then obtain m where "n = 46 + m" using le_Suc_ex by blast
    then show "param_indices (uart1 (transmit_passes n ?s1)) = ?ix @ [0, 1, 2, 3]"
      using view_fields [OF stream_finished [OF q v, of m]] by simp
  qed
  show "\<forall>n. (parameterProtocolState (transmit_passes n ?s1) = PARAM_STATE_INACTIVE) = (46 \<le> n)"
  proof
    fix n :: nat
    consider "n = 0" | "n = 1" | "2 \<le> n" "n < 46" | "46 \<le> n" by arith
    then show "(parameterProtocolState (transmit_passes n ?s1) = PARAM_STATE_INACTIVE) = (46 \<le> n)"
    proof cases
      case 1
      then show ?thesis using view_fields [OF v] by simp
    next
      case 2
      then show ?thesis using view_fields [OF one] by simp
    next
      case 3
      define k where "k = (n - 2) div 11"
      define j where "j = (n - 2) mod 11"
      have n: "n = 2 + 11 * k + j" and "k < 4" and "j \<le> 10"
        using 3 by (simp_all add: k_def j_def)
      then show ?thesis
        using stream_between_sends(2) [OF q v, of k j] 3 by simp
    next
      case 4
      then obtain m where "n = 46 + m" using le_Suc_ex by blast
      then show ?thesis
        using view_fields [OF stream_finished [OF q v, of m]] by simp
    qed
  qed
qed

theorem param_stream_schedule_witness:
  "msg_payload (gcs_frame PARAM_REQUEST_LIST_in) = PARAM_REQUEST_LIST_in
   \<and> param_quiet (scheduler (booted empty_store))
   \<and> delayCountdown (booted empty_store) = 0
   \<and> parameterProtocolState (booted empty_store) = PARAM_STATE_INACTIVE
   \<and> param_indices (uart1 (transmit_passes 1
        (handle_message (gcs_frame PARAM_REQUEST_LIST_in) (booted empty_store)))) = []
   \<and> param_indices (uart1 (transmit_passes 2
        (handle_message (gcs_frame PARAM_REQUEST_LIST_in) (booted empty_store)))) = [0]
   \<and> param_indices (uart1 (transmit_passes 12
        (handle_message (gcs_frame PARAM_REQUEST_LIST_in) (booted empty_store)))) = [0]
   \<and> param_indices (uart1 (transmit_passes 13
        (handle_message (gcs_frame PARAM_REQUEST_LIST_in) (booted empty_store)))) = [0, 1]
   \<and> param_indices (uart1 (transmit_passes 46
        (handle_message (gcs_frame PARAM_REQUEST_LIST_in) (booted empty_store)))) = [0, 1, 2, 3]
   \<and> parameterProtocolState (transmit_passes 45
        (handle_message (gcs_frame PARAM_REQUEST_LIST_in) (booted empty_store)))
       \<noteq> PARAM_STATE_INACTIVE
   \<and> parameterProtocolState (transmit_passes 46
        (handle_message (gcs_frame PARAM_REQUEST_LIST_in) (booted empty_store)))
       = PARAM_STATE_INACTIVE"
proof -
  let ?msg = "gcs_frame PARAM_REQUEST_LIST_in"
  let ?s = "booted empty_store"
  have h1: "msg_payload ?msg = PARAM_REQUEST_LIST_in" by (simp add: gcs_frame_def)
  have h2: "param_quiet (scheduler ?s)" by (rule booted_quiet)
  have h3: "delayCountdown ?s = 0" by (rule booted_fields)
  have h4: "parameterProtocolState ?s = PARAM_STATE_INACTIVE" by (rule booted_fields)
  note t = param_stream_schedule [OF h1 h2 h3, THEN conjunct2, rule_format, OF h4]
  note early = t [THEN conjunct1, rule_format]
  note mid = t [THEN conjunct2, THEN conjunct1, rule_format]
  note late = t [THEN conjunct2, THEN conjunct2, THEN conjunct1, rule_format]
  note state = t [THEN conjunct2, THEN conjunct2, THEN conjunct2, rule_format]
  have a: "param_indices (uart1 (transmit_passes 1 (handle_message ?msg ?s))) = []"
    using early [of 1] by (simp add: booted_fields del: transmit_passes.simps)
  have b: "param_indices (uart1 (transmit_passes 2 (handle_message ?msg ?s))) = [0]"
    using mid [of 0 0] by (simp add: booted_fields del: transmit_passes.simps)
  have c: "param_indices (uart1 (transmit_passes 12 (handle_message ?msg ?s))) = [0]"
    using mid [of 0 10] by (simp add: booted_fields del: transmit_passes.simps)
  have d: "param_indices (uart1 (transmit_passes 13 (handle_message ?msg ?s))) = [0, 1]"
    using mid [of 1 0] by (simp add: booted_fields del: transmit_passes.simps)
  have e: "param_indices (uart1 (transmit_passes 46 (handle_message ?msg ?s))) = [0, 1, 2, 3]"
    using late [of 46] by (simp add: booted_fields del: transmit_passes.simps)
  have f: "parameterProtocolState (transmit_passes 45 (handle_message ?msg ?s))
             \<noteq> PARAM_STATE_INACTIVE"
    using state [of 45] by simp
  have g: "parameterProtocolState (transmit_passes 46 (handle_message ?msg ?s))
             = PARAM_STATE_INACTIVE"
    using state [of 46] by simp
  from h1 h2 h3 h4 a b c d e f g show ?thesis by blast
qed

lemma param_set_registered:
  assumes "msg_payload msg = PARAM_SET_in pid v"
    and "parameterProtocolState s = PARAM_STATE_INACTIVE"
    and "k < 4" and "pid = param_registry ! k"
  shows "systemStatus_status (handle_message msg s) =
           (if v \<noteq> 0 then systemStatus_status s OR push_bit k 1
            else systemStatus_status s AND NOT (push_bit k 1))"
    and "currentParameter (handle_message msg s) = of_nat k"
    and "uart1 (handle_message msg s) =
           uart1 s @ [PARAM_VALUE_out pid (if v \<noteq> 0 then 1 else 0) parameterCount (of_nat k)]"
proof -
  from assms(3) have k: "k = 0 \<or> k = 1 \<or> k = 2 \<or> k = 3" by arith
  have or_m: "(x OR m) AND m = m" for x m :: "16 word"
    by (simp add: bit_eq_iff bit_and_iff bit_or_iff)
  have and_m: "(x AND NOT m) AND m = 0" for x m :: "16 word"
    by (simp add: bit_eq_iff bit_and_iff bit_not_iff)
  have nz: "push_bit j (1 :: 16 word) \<noteq> 0" if "j < 4" for j
  proof -
    from that have "j = 0 \<or> j = 1 \<or> j = 2 \<or> j = 3" by arith
    then show ?thesis by (elim disjE) simp_all
  qed
  have sb: "status_bit j ((set_status_bit j w s')\<lparr>currentParameter := c\<rparr>)
              = (if w \<noteq> 0 then 1 else 0)" if "j < 4" for j w s' c
    using nz [OF that] by (simp add: status_bit_def set_status_bit_def or_m and_m)
  have st: "systemStatus_status (set_status_bit j w s') =
              (if w \<noteq> 0 then systemStatus_status s' OR push_bit j 1
               else systemStatus_status s' AND NOT (push_bit j 1))" for j w s'
    by (simp add: set_status_bit_def)
  have ua: "uart1 (set_status_bit j w s') = uart1 s'" for j w s'
    by (simp add: set_status_bit_def)
  note defs = handle_message_def latch_groundstation_def param_registry_def
    transmitParameter0_def transmitParameter1_def transmitParameter2_def transmitParameter3_def
    uart1EnqueueData_def Let_def
  from k show "systemStatus_status (handle_message msg s) =
           (if v \<noteq> 0 then systemStatus_status s OR push_bit k 1
            else systemStatus_status s AND NOT (push_bit k 1))"
    using assms(1,2,4) by (elim disjE) (simp_all add: defs st)
  from k show "currentParameter (handle_message msg s) = of_nat k"
    using assms(1,2,4) by (elim disjE) (simp_all add: defs)
  from k show "uart1 (handle_message msg s) =
           uart1 s @ [PARAM_VALUE_out pid (if v \<noteq> 0 then 1 else 0) parameterCount (of_nat k)]"
    using assms(1,2,4) by (elim disjE) (simp_all add: defs sb ua)
qed

text \<open>Claim C7, as amended. A parameter set request is looked at only in the inactive state;
  in any other state it changes nothing but the latch of the ground station. In the
  inactive state a name of the registry sets or clears the bit of the parameter, makes it
  the current parameter and enqueues its new value at once; a name outside the registry
  changes no parameter and enqueues nothing. In both cases the protocol moves to the
  single-transmit start state, from which the next transmit pass sends the current
  parameter once (if its index is below 4) and returns to inactive: a registered name is
  thus answered twice.\<close>

theorem param_set_effects:
  assumes "msg_payload msg = PARAM_SET_in pid v"
  shows "(parameterProtocolState s \<noteq> PARAM_STATE_INACTIVE \<longrightarrow>
            handle_message msg s = latch_groundstation msg s)
       \<and> (parameterProtocolState s = PARAM_STATE_INACTIVE \<longrightarrow>
            parameterProtocolState (handle_message msg s) = PARAM_STATE_SINGLETON_TRANSMIT_START
          \<and> (\<forall>k<4. pid = param_registry ! k \<longrightarrow>
                systemStatus_status (handle_message msg s) =
                  (if v \<noteq> 0 then systemStatus_status s OR push_bit k 1
                   else systemStatus_status s AND NOT (push_bit k 1))
              \<and> currentParameter (handle_message msg s) = of_nat k
              \<and> uart1 (handle_message msg s) =
                  uart1 s @ [PARAM_VALUE_out pid (if v \<noteq> 0 then 1 else 0) parameterCount (of_nat k)])
          \<and> (pid \<notin> set param_registry \<longrightarrow>
                handle_message msg s =
                  (latch_groundstation msg s)
                    \<lparr>parameterProtocolState := PARAM_STATE_SINGLETON_TRANSMIT_START\<rparr>))
       \<and> (param_quiet (scheduler s)
            \<and> parameterProtocolState s = PARAM_STATE_SINGLETON_TRANSMIT_START \<longrightarrow>
            parameterProtocolState (MavLinkTransmit s) = PARAM_STATE_INACTIVE
          \<and> param_indices (uart1 (MavLinkTransmit s)) =
              param_indices (uart1 s)
                @ (if currentParameter s < 4 then [ucast (currentParameter s)] else []))"
proof (intro conjI impI allI)
  assume "parameterProtocolState s \<noteq> PARAM_STATE_INACTIVE"
  then show "handle_message msg s = latch_groundstation msg s"
    using assms by (simp add: handle_message_def latch_groundstation_def)
next
  assume i: "parameterProtocolState s = PARAM_STATE_INACTIVE"
  show "parameterProtocolState (handle_message msg s) = PARAM_STATE_SINGLETON_TRANSMIT_START"
    using assms i by (simp add: handle_message_def latch_groundstation_def Let_def)
next
  fix k :: nat
  assume i: "parameterProtocolState s = PARAM_STATE_INACTIVE"
    and k: "k < 4" and p: "pid = param_registry ! k"
  show "systemStatus_status (handle_message msg s) =
          (if v \<noteq> 0 then systemStatus_status s OR push_bit k 1
           else systemStatus_status s AND NOT (push_bit k 1))"
    by (rule param_set_registered(1) [OF assms i k p])
  show "currentParameter (handle_message msg s) = of_nat k"
    by (rule param_set_registered(2) [OF assms i k p])
  show "uart1 (handle_message msg s) =
          uart1 s @ [PARAM_VALUE_out pid (if v \<noteq> 0 then 1 else 0) parameterCount (of_nat k)]"
    by (rule param_set_registered(3) [OF assms i k p])
next
  assume i: "parameterProtocolState s = PARAM_STATE_INACTIVE"
    and "pid \<notin> set param_registry"
  then show "handle_message msg s =
               (latch_groundstation msg s)
                 \<lparr>parameterProtocolState := PARAM_STATE_SINGLETON_TRANSMIT_START\<rparr>"
    using assms
    by (simp add: handle_message_def latch_groundstation_def param_registry_def Let_def)
next
  assume a: "param_quiet (scheduler s)
             \<and> parameterProtocolState s = PARAM_STATE_SINGLETON_TRANSMIT_START"
  note r = view_fields [OF pass_from_single_start [OF conjunct1 [OF a] conjunct2 [OF a]]]
  from r show "parameterProtocolState (MavLinkTransmit s) = PARAM_STATE_INACTIVE" by simp
  from r show "param_indices (uart1 (MavLinkTransmit s)) =
                 param_indices (uart1 s)
                   @ (if currentParameter s < 4 then [ucast (currentParameter s)] else [])"
    by simp
qed

theorem param_set_effects_witness:
  "msg_payload (gcs_frame (PARAM_SET_in ''MODE_HIL'' 1)) = PARAM_SET_in ''MODE_HIL'' 1
   \<and> parameterProtocolState stream_busy \<noteq> PARAM_STATE_INACTIVE
   \<and> uart1 (handle_message (gcs_frame (PARAM_SET_in ''MODE_HIL'' 1)) stream_busy) = []
   \<and> systemStatus_status (handle_message (gcs_frame (PARAM_SET_in ''MODE_HIL'' 1)) stream_busy) = 0
   \<and> parameterProtocolState (booted empty_store) = PARAM_STATE_INACTIVE
   \<and> (1 :: nat) < 4 \<and> ''MODE_HIL'' = param_registry ! 1
   \<and> systemStatus_status
        (handle_message (gcs_frame (PARAM_SET_in ''MODE_HIL'' 1)) (booted empty_store)) = 2
   \<and> uart1 (handle_message (gcs_frame (PARAM_SET_in ''MODE_HIL'' 1)) (booted empty_store))
       = [PARAM_VALUE_out ''MODE_HIL'' 1 4 1]
   \<and> parameterProtocolState
        (handle_message (gcs_frame (PARAM_SET_in ''MODE_HIL'' 1)) (booted empty_store))
       = PARAM_STATE_SINGLETON_TRANSMIT_START
   \<and> msg_payload (gcs_frame (PARAM_SET_in ''MODE_X'' 1)) = PARAM_SET_in ''MODE_X'' 1
   \<and> ''MODE_X'' \<notin> set param_registry
   \<and> parameterProtocolState
        (handle_message (gcs_frame (PARAM_SET_in ''MODE_X'' 1)) (booted empty_store))
       = PARAM_STATE_SINGLETON_TRANSMIT_START
   \<and> uart1 (handle_message (gcs_frame (PARAM_SET_in ''MODE_X'' 1)) (booted empty_store)) = []
   \<and> param_quiet (scheduler single_pending)
   \<and> parameterProtocolState single_pending = PARAM_STATE_SINGLETON_TRANSMIT_START
   \<and> parameterProtocolState (MavLinkTransmit single_pending) = PARAM_STATE_INACTIVE
   \<and> param_indices (uart1 (MavLinkTransmit single_pending)) = [2]"
proof -
  let ?hil = "gcs_frame (PARAM_SET_in ''MODE_HIL'' 1)"
  let ?x = "gcs_frame (PARAM_SET_in ''MODE_X'' 1)"
  let ?s = "booted empty_store"
  have h1: "msg_payload ?hil = PARAM_SET_in ''MODE_HIL'' 1" by (simp add: gcs_frame_def)
  have h2: "msg_payload ?x = PARAM_SET_in ''MODE_X'' 1" by (simp add: gcs_frame_def)
  have busy: "parameterProtocolState stream_busy \<noteq> PARAM_STATE_INACTIVE"
    by (simp add: stream_busy_def)
  have idle: "parameterProtocolState ?s = PARAM_STATE_INACTIVE" by (rule booted_fields)
  have k: "(1 :: nat) < 4" by simp
  have reg: "''MODE_HIL'' = param_registry ! 1" by (simp add: param_registry_def)
  have unk: "''MODE_X'' \<notin> set param_registry" by (simp add: param_registry_def)
  have q: "param_quiet (scheduler single_pending)"
    using booted_quiet(1) [of empty_store] by (simp add: single_pending_def)
  have p: "parameterProtocolState single_pending = PARAM_STATE_SINGLETON_TRANSMIT_START"
    by (simp add: single_pending_def)
  note t1 = param_set_effects [OF h1, of stream_busy, THEN conjunct1, rule_format, OF busy]
  note t2 = param_set_effects [OF h1, of ?s, THEN conjunct2, THEN conjunct1, rule_format, OF idle]
  note t3 = param_set_effects [OF h2, of ?s, THEN conjunct2, THEN conjunct1, rule_format, OF idle]
  note t4 = param_set_effects [OF h1, of single_pending, THEN conjunct2, THEN conjunct2,
      rule_format, OF conjI [OF q p]]
  have a: "uart1 (handle_message ?hil stream_busy) = []
           \<and> systemStatus_status (handle_message ?hil stream_busy) = 0"
    using t1 by (simp add: latch_groundstation_def stream_busy_def booted_fields)
  have b: "systemStatus_status (handle_message ?hil ?s) = 2
           \<and> uart1 (handle_message ?hil ?s) = [PARAM_VALUE_out ''MODE_HIL'' 1 4 1]"
    using t2 [THEN conjunct2, THEN conjunct1, rule_format, OF k reg]
    by (simp add: booted_fields parameterCount_def)
  have c: "uart1 (handle_message ?x ?s) = []"
    using t3 [THEN conjunct2, THEN conjunct2, rule_format, OF unk]
    by (simp add: latch_groundstation_def booted_fields)
  have d: "param_indices (uart1 (MavLinkTransmit single_pending)) = [2]"
    using t4 [THEN conjunct2] by (simp add: single_pending_def booted_fields)
  from h1 busy a idle k reg b t2 [THEN conjunct1] h2 unk t3 [THEN conjunct1] c q p
    t4 [THEN conjunct1] d
  show ?thesis by simp
qed

text \<open>The claim as stated fails: an unknown name changes the protocol state and the next pass
  transmits parameter 0; a known name is answered by two transmissions.\<close>

theorem param_set_not_as_claimed:
  "parameterProtocolState
     (handle_message (gcs_frame (PARAM_SET_in ''MODE_X'' 1)) (initial_state empty_store))
     = PARAM_STATE_SINGLETON_TRANSMIT_START
   \<and> uart1 (MavLinkTransmit
        (handle_message (gcs_frame (PARAM_SET_in ''MODE_X'' 1)) (initial_state empty_store)))
     = [PARAM_VALUE_out ''MODE_AUTO'' 0 4 0]
   \<and> uart1 (MavLinkTransmit
        (handle_message (gcs_frame (PARAM_SET_in ''MODE_HIL'' 1)) (initial_state empty_store)))
     = [PARAM_VALUE_out ''MODE_HIL'' 1 4 1, PARAM_VALUE_out ''MODE_HIL'' 1 4 1]"
  by (simp add: receive_defs transmit_defs)

subsection \<open>Mission download\<close>





end
